theory Spec2Isabelle
  imports Complex_Main "HOL-Library.Word"
begin

section \<open>Strings, numbers and JSON values of the runtime\<close>

text \<open>
  A JavaScript string is a sequence of UTF-16 code units; \<open>length\<close>, \<open>slice\<close> and
  \<open>trim\<close> count and cut code units. \<open>lit\<close> embeds an ASCII literal of the source.
\<close>

type_synonym jstring = "16 word list"

definition lit :: "string \<Rightarrow> jstring" where
  "lit s = map (\<lambda>c. of_nat (of_char c)) s"

text \<open>
  The characters removed by \<open>String.prototype.trim\<close> and matched by the regular
  expression class \<open>\s\<close>: the WhiteSpace and LineTerminator code points of ECMAScript.
\<close>

definition isWhiteSpace :: "16 word \<Rightarrow> bool" where
  "isWhiteSpace c \<longleftrightarrow>
     c = 0x09 \<or> c = 0x0A \<or> c = 0x0B \<or> c = 0x0C \<or> c = 0x0D \<or> c = 0x20 \<or> c = 0xA0 \<or>
     c = 0x1680 \<or> (0x2000 \<le> c \<and> c \<le> 0x200A) \<or> c = 0x2028 \<or> c = 0x2029 \<or>
     c = 0x202F \<or> c = 0x205F \<or> c = 0x3000 \<or> c = 0xFEFF"

definition trim :: "jstring \<Rightarrow> jstring" where
  "trim s = rev (dropWhile isWhiteSpace (rev (dropWhile isWhiteSpace s)))"

text \<open>\<open>s.replace(/\s+/g, ' ')\<close>: every maximal run of white space becomes one space.\<close>

function replace_ws :: "jstring \<Rightarrow> jstring" where
  "replace_ws [] = []"
| "replace_ws (c # cs) =
     (if isWhiteSpace c then 0x20 # replace_ws (dropWhile isWhiteSpace cs)
      else c # replace_ws cs)"
  by pat_completeness auto
termination
  by (relation "measure length") (auto simp: length_dropWhile_le le_imp_less_Suc)

text \<open>The decimal digits of a non-negative integer, as a template literal prints it.\<close>

function decimal :: "nat \<Rightarrow> jstring" where
  "decimal n = (if n < 10 then [of_nat (48 + n)]
                else decimal (n div 10) @ [of_nat (48 + n mod 10)])"
  by pat_completeness auto
termination
  by (relation "measure id") auto

declare decimal.simps [simp del]

text \<open>
  A number read by \<open>JSON.parse\<close> is a finite double, or an infinity when the literal
  overflows (\<open>1e999\<close>); it is never NaN. Every finite double is a rational number, and
  on those \<open>Math.round\<close>, \<open>Math.min\<close> and \<open>Math.max\<close> are exact.
\<close>

datatype jsnum = Finite rat | PosInfinity | NegInfinity

fun num_le :: "jsnum \<Rightarrow> jsnum \<Rightarrow> bool" where
  "num_le NegInfinity _ = True"
| "num_le _ PosInfinity = True"
| "num_le (Finite a) (Finite b) = (a \<le> b)"
| "num_le _ _ = False"

text \<open>\<open>Math.round\<close> yields the nearest integer, a tie going towards \<open>+\<infinity>\<close>.\<close>

fun Math_round :: "jsnum \<Rightarrow> jsnum" where
  "Math_round (Finite r) = Finite (of_int \<lfloor>r + 1 / 2\<rfloor>)"
| "Math_round PosInfinity = PosInfinity"
| "Math_round NegInfinity = NegInfinity"

definition Math_min :: "jsnum \<Rightarrow> jsnum \<Rightarrow> jsnum" where
  "Math_min a b = (if num_le a b then a else b)"

definition Math_max :: "jsnum \<Rightarrow> jsnum \<Rightarrow> jsnum" where
  "Math_max a b = (if num_le a b then b else a)"

datatype json =
    JNull
  | JBool bool
  | JNum jsnum
  | JStr jstring
  | JArr "json list"
  | JObj "(jstring \<times> json) list"

text \<open>
  Reading a property of a parsed value that is not \<open>null\<close>; \<open>None\<close> is \<open>undefined\<close>.
  An object holds its members in the order of the text, a repeated key keeping its last
  value. The properties the program reads (\<open>type\<close>, \<open>confidence\<close>, \<open>reasons\<close>,
  \<open>model\<close>, \<open>error\<close>) exist on no array, string, number or boolean.
\<close>

fun get_prop :: "json \<Rightarrow> jstring \<Rightarrow> json option" where
  "get_prop (JObj kvs) k = map_of (rev kvs) k"
| "get_prop _ k = None"

fun truthy :: "json \<Rightarrow> bool" where
  "truthy JNull = False"
| "truthy (JBool b) = b"
| "truthy (JNum n) = (n \<noteq> Finite 0)"
| "truthy (JStr s) = (s \<noteq> [])"
| "truthy (JArr _) = True"
| "truthy (JObj _) = True"

fun join_comma :: "jstring list \<Rightarrow> jstring" where
  "join_comma [] = []"
| "join_comma [s] = s"
| "join_comma (s # t # ss) = s @ 0x2C # join_comma (t # ss)"

text \<open>
  \<open>ToString\<close> of a parsed value, as the \<open>Error\<close> constructor applies it to its
  argument; \<open>None\<close> is a \<open>TypeError\<close>. An object is printed by
  \<open>Object.prototype.toString\<close> unless it has a member named \<open>toString\<close> of its
  own: such a member is never a function, and since \<open>valueOf\<close> does not yield a
  primitive either, the conversion throws. An array joins the texts of its elements,
  \<open>null\<close> counting as the empty text, and throws when an element does. Printing a
  number is left to the engine: \<open>num\<close> is that function.
\<close>

fun sequence :: "'a option list \<Rightarrow> 'a list option" where
  "sequence [] = Some []"
| "sequence (None # _) = None"
| "sequence (Some x # xs) = map_option ((#) x) (sequence xs)"

fun ToString :: "(jsnum \<Rightarrow> jstring) \<Rightarrow> json \<Rightarrow> jstring option" where
  "ToString num JNull = Some (lit ''null'')"
| "ToString num (JBool b) = Some (if b then lit ''true'' else lit ''false'')"
| "ToString num (JNum n) = Some (num n)"
| "ToString num (JStr s) = Some s"
| "ToString num (JArr xs) =
     map_option join_comma
       (sequence (map (\<lambda>x. if x = JNull then Some [] else ToString num x) xs))"
| "ToString num (JObj kvs) =
     (if lit ''toString'' \<in> fst ` set kvs then None else Some (lit ''[object Object]''))"

section \<open>The data of the application\<close>

datatype ResultType = ai | human

record ResultData =
  rtype :: ResultType
  confidence :: jsnum
  reasons :: "json list"
  model :: json

datatype ViewState = Empty | Loading | Result | Error

datatype Status = success | error

record HistoryItem =
  item_id :: nat
  timestamp :: jstring
  item_language :: jstring
  codePreview :: jstring
  status :: Status
  item_result :: "ResultData option"
  item_errorMessage :: "jstring option"

text \<open>The argument of \<open>addToHistory\<close>: a history item without id, time and preview.\<close>

record HistoryArg =
  arg_language :: jstring
  arg_status :: Status
  arg_result :: "ResultData option"
  arg_errorMessage :: "jstring option"

definition MIN_CODE_LENGTH :: nat where
  "MIN_CODE_LENGTH = 20"

section \<open>The history\<close>

text \<open>
  The marker appended to a preview of a long snippet, as the source file spells it:
  three code units.
\<close>

definition truncation_marker :: jstring where
  "truncation_marker = [0xE2, 0x20AC, 0xA6]"

definition code_preview :: "jstring \<Rightarrow> jstring" where
  "code_preview code =
     take 80 (trim (replace_ws code)) @ (if length code > 80 then truncation_marker else [])"

text \<open>
  The item that \<open>addToHistory\<close> builds, given the id; \<open>now\<close> is the text of
  \<open>toLocaleTimeString\<close> and \<open>code\<close> the buffer that the caller's closure holds.
\<close>

definition new_item :: "nat \<Rightarrow> jstring \<Rightarrow> jstring \<Rightarrow> HistoryArg \<Rightarrow> HistoryItem" where
  "new_item n now code item =
     \<lparr> item_id = n,
       timestamp = now,
       item_language = arg_language item,
       codePreview = (if code_preview code = [] then lit ''(empty)'' else code_preview code),
       status = arg_status item,
       item_result = arg_result item,
       item_errorMessage = arg_errorMessage item \<rparr>"

definition addToHistory ::
  "jstring \<Rightarrow> jstring \<Rightarrow> HistoryArg \<Rightarrow> HistoryItem list \<Rightarrow> HistoryItem list" where
  "addToHistory now code item prev =
     take 10 (new_item (length prev + 1) now code item # prev)"

text \<open>A sequence of completed attempts, recorded one after the other.\<close>

type_synonym attempt = "jstring \<times> jstring \<times> HistoryArg"

fun record_attempts :: "HistoryItem list \<Rightarrow> attempt list \<Rightarrow> HistoryItem list" where
  "record_attempts h [] = h"
| "record_attempts h ((now, code, item) # as) =
     record_attempts (addToHistory now code item h) as"

section \<open>The analysis session\<close>

text \<open>
  The state of the \<open>App\<close> component that the analysis reads or writes. The fields
  that only decorate a result (\<open>lastAnalyzedAt\<close>, \<open>analysisDuration\<close>,
  \<open>animatedConfidence\<close>) and the information panels are left out: nothing below
  depends on them, and no handler reads them back.
\<close>

record app =
  code :: jstring
  language :: jstring
  state :: ViewState
  result :: "ResultData option"
  errorMessage :: "jstring option"
  history :: "HistoryItem list"

definition initial :: app where
  "initial = \<lparr> code = [], language = lit ''auto'', state = Empty, result = None,
               errorMessage = None, history = [] \<rparr>"

text \<open>
  A request in flight. Its continuation is a closure of the render in which
  \<open>handleAnalyze\<close> was called: it holds the \<open>code\<close> and \<open>language\<close> of that
  moment, and these are what the request body and the history item are made of.
\<close>

record request =
  req_code :: jstring
  req_language :: jstring

text \<open>
  \<open>handleAnalyze\<close> up to its \<open>await\<close>: the only guard is on an empty trimmed
  buffer. It returns the new state and the request it sent, if any.
\<close>

definition handleAnalyze :: "app \<Rightarrow> app \<times> request option" where
  "handleAnalyze a =
     (if trim (code a) = [] then (a, None)
      else (a\<lparr>state := Loading, errorMessage := None\<rparr>,
            Some \<lparr>req_code = code a, req_language = language a\<rparr>))"

text \<open>
  What \<open>fetch\<close> and \<open>res.json()\<close> can deliver. A promise is rejected with a value
  that is an \<open>Error\<close> object carrying a message, or with something else.
\<close>

datatype thrown = ErrorObject jstring | NonError

datatype body = JsonOk json | JsonRejects thrown

datatype fetch_outcome = FetchRejects thrown | Response nat body

definition res_ok :: "nat \<Rightarrow> bool" where
  "res_ok st \<longleftrightarrow> 200 \<le> st \<and> st \<le> 299"

text \<open>
  What the engine decides: the message of the \<open>TypeError\<close> raised by reading a
  property of \<open>null\<close>, the message of the one raised when an object has no
  primitive value, and the printing of numbers.
\<close>

record runtime =
  null_read_message :: jstring
  to_primitive_message :: jstring
  number_text :: "jsnum \<Rightarrow> jstring"

text \<open>
  The branch \<open>!res.ok\<close>: \<open>backendMessage\<close> is \<open>errJson.error || ''\<close>, and stays
  \<open>''\<close> when the body does not parse or is \<open>null\<close> (the inner \<open>catch\<close> ignores
  both); the value thrown is \<open>new Error(backendMessage || `Server error (status N)`)\<close>,
  or the \<open>TypeError\<close> that the constructor raises when it cannot print its argument.
  Either reaches the outer \<open>catch\<close>.
\<close>

definition backendMessage :: "body \<Rightarrow> json" where
  "backendMessage b =
     (case b of
        JsonRejects _ \<Rightarrow> JStr []
      | JsonOk JNull \<Rightarrow> JStr []
      | JsonOk errJson \<Rightarrow>
          (case get_prop errJson (lit ''error'') of
             None \<Rightarrow> JStr []
           | Some v \<Rightarrow> if truthy v then v else JStr []))"

definition status_message :: "nat \<Rightarrow> jstring" where
  "status_message st = lit ''Server error (status '' @ decimal st @ lit '')''"

definition server_error :: "runtime \<Rightarrow> nat \<Rightarrow> body \<Rightarrow> thrown" where
  "server_error rt st b =
     (if truthy (backendMessage b)
      then (case ToString (number_text rt) (backendMessage b) of
              Some m \<Rightarrow> ErrorObject m
            | None \<Rightarrow> ErrorObject (to_primitive_message rt))
      else ErrorObject (status_message st))"

definition clamp_confidence :: "jsnum \<Rightarrow> jsnum" where
  "clamp_confidence c = Math_max (Finite 0) (Math_min (Finite 100) (Math_round c))"

definition normalized :: "json \<Rightarrow> ResultData" where
  "normalized dataRaw =
     \<lparr> rtype = (if get_prop dataRaw (lit ''type'') = Some (JStr (lit ''ai'')) then ai else human),
       confidence =
         (case get_prop dataRaw (lit ''confidence'') of
            Some (JNum c) \<Rightarrow> clamp_confidence c
          | _ \<Rightarrow> Finite 55),
       reasons =
         (case get_prop dataRaw (lit ''reasons'') of
            Some (JArr rs) \<Rightarrow> rs
          | _ \<Rightarrow> [JStr (lit ''No reasons provided by backend.'')]),
       model =
         (case get_prop dataRaw (lit ''model'') of
            None \<Rightarrow> JStr (lit ''Heuristic'')
          | Some JNull \<Rightarrow> JStr (lit ''Heuristic'')
          | Some m \<Rightarrow> m) \<rparr>"

text \<open>
  The \<open>try\<close> block after the \<open>await\<close>: \<open>Inl\<close> is the value that reaches the
  \<open>catch\<close>, \<open>Inr\<close> the normalized result.
\<close>

definition try_block :: "runtime \<Rightarrow> fetch_outcome \<Rightarrow> thrown + ResultData" where
  "try_block rt out =
     (case out of
        FetchRejects t \<Rightarrow> Inl t
      | Response st b \<Rightarrow>
          if \<not> res_ok st then Inl (server_error rt st b)
          else (case b of
                  JsonRejects t \<Rightarrow> Inl t
                | JsonOk JNull \<Rightarrow> Inl (ErrorObject (null_read_message rt))
                | JsonOk dataRaw \<Rightarrow> Inr (normalized dataRaw)))"

definition catch_message :: "thrown \<Rightarrow> jstring" where
  "catch_message err =
     (case err of
        ErrorObject m \<Rightarrow> m
      | NonError \<Rightarrow> lit ''Unable to reach the server. Please try again.'')"

text \<open>
  The rest of \<open>handleAnalyze\<close>, run when the request \<open>rq\<close> settles with \<open>out\<close>
  at local time \<open>now\<close>. Nothing in it looks at the state it finds.
\<close>

definition complete :: "runtime \<Rightarrow> request \<Rightarrow> jstring \<Rightarrow> fetch_outcome \<Rightarrow> app \<Rightarrow> app" where
  "complete rt rq now out a =
     (case try_block rt out of
        Inr n \<Rightarrow>
          a\<lparr> result := Some n, state := Result,
             history := addToHistory now (req_code rq)
               \<lparr>arg_language = req_language rq, arg_status = success,
                arg_result = Some n, arg_errorMessage = None\<rparr> (history a) \<rparr>
      | Inl err \<Rightarrow>
          a\<lparr> errorMessage := Some (catch_message err), result := None, state := Error,
             history := addToHistory now (req_code rq)
               \<lparr>arg_language = req_language rq, arg_status = error,
                arg_result = None, arg_errorMessage = Some (catch_message err)\<rparr> (history a) \<rparr>)"

definition handleReset :: "app \<Rightarrow> app" where
  "handleReset a = a\<lparr>code := [], result := None, errorMessage := None, state := Empty\<rparr>"

definition handleClearText :: "app \<Rightarrow> app" where
  "handleClearText a = a\<lparr>code := []\<rparr>"

definition isLoading :: "app \<Rightarrow> bool" where
  "isLoading a \<longleftrightarrow> state a = Loading"

definition isCodeValid :: "app \<Rightarrow> bool" where
  "isCodeValid a \<longleftrightarrow> length (trim (code a)) \<ge> MIN_CODE_LENGTH"

text \<open>The \<open>disabled\<close> attribute of the Analyze button, and of the Retry button.\<close>

definition analyze_disabled :: "app \<Rightarrow> bool" where
  "analyze_disabled a \<longleftrightarrow> isLoading a \<or> \<not> isCodeValid a"

definition retry_disabled :: "app \<Rightarrow> bool" where
  "retry_disabled a \<longleftrightarrow> isLoading a \<or> trim (code a) = []"

text \<open>The Retry button is part of the error panel, rendered only in state \<open>error\<close>.\<close>

definition retry_rendered :: "app \<Rightarrow> bool" where
  "retry_rendered a \<longleftrightarrow> state a = Error"

section \<open>The session as a transition system\<close>

text \<open>
  The component together with the requests in flight. An event is an action of the
  user, or the settling of the \<open>i\<close>-th request in flight. A disabled or absent button
  delivers no click. The two buttons that insert a sample are an edit followed by the
  selection of a language; copying the result changes nothing.
\<close>

record session =
  ui :: app
  inflight :: "request list"

datatype event =
    Edit jstring
  | SelectLanguage jstring
  | ClickClearText
  | ClickReset
  | ClickAnalyze
  | ClickRetry
  | Settle nat jstring fetch_outcome

definition start :: session where
  "start = \<lparr>ui = initial, inflight = []\<rparr>"

definition submit :: "session \<Rightarrow> session" where
  "submit s =
     (case handleAnalyze (ui s) of
        (a, None) \<Rightarrow> s\<lparr>ui := a\<rparr>
      | (a, Some rq) \<Rightarrow> \<lparr>ui = a, inflight = inflight s @ [rq]\<rparr>)"

fun step :: "runtime \<Rightarrow> session \<Rightarrow> event \<Rightarrow> session" where
  "step rt s (Edit c) = s\<lparr>ui := (ui s)\<lparr>code := c\<rparr>\<rparr>"
| "step rt s (SelectLanguage l) = s\<lparr>ui := (ui s)\<lparr>language := l\<rparr>\<rparr>"
| "step rt s ClickClearText = s\<lparr>ui := handleClearText (ui s)\<rparr>"
| "step rt s ClickReset = s\<lparr>ui := handleReset (ui s)\<rparr>"
| "step rt s ClickAnalyze = (if analyze_disabled (ui s) then s else submit s)"
| "step rt s ClickRetry =
     (if retry_rendered (ui s) \<and> \<not> retry_disabled (ui s) then submit s else s)"
| "step rt s (Settle i now out) =
     (if i < length (inflight s)
      then \<lparr>ui = complete rt (inflight s ! i) now out (ui s),
            inflight = take i (inflight s) @ drop (Suc i) (inflight s)\<rparr>
      else s)"

definition run :: "runtime \<Rightarrow> session \<Rightarrow> event list \<Rightarrow> session" where
  "run rt s evs = foldl (step rt) s evs"

text \<open>The object that the continuation hands to \<open>addToHistory\<close>.\<close>

definition history_arg :: "runtime \<Rightarrow> request \<Rightarrow> fetch_outcome \<Rightarrow> HistoryArg" where
  "history_arg rt rq out =
     (case try_block rt out of
        Inr n \<Rightarrow> \<lparr>arg_language = req_language rq, arg_status = success,
                  arg_result = Some n, arg_errorMessage = None\<rparr>
      | Inl err \<Rightarrow> \<lparr>arg_language = req_language rq, arg_status = error,
                    arg_result = None, arg_errorMessage = Some (catch_message err)\<rparr>)"

text \<open>
  Attempts made one after the other from the same buffer: each is a click on Analyze
  followed by the settling of its request, at a given time with a given outcome.
\<close>

definition sequential :: "(jstring \<times> fetch_outcome) list \<Rightarrow> event list" where
  "sequential xs = concat (map (\<lambda>(now, out). [ClickAnalyze, Settle 0 now out]) xs)"

definition attempt_of :: "runtime \<Rightarrow> app \<Rightarrow> jstring \<times> fetch_outcome \<Rightarrow> attempt" where
  "attempt_of rt a x =
     (case x of (now, out) \<Rightarrow>
        (now, code a, history_arg rt \<lparr>req_code = code a, req_language = language a\<rparr> out))"

text \<open>History items compared apart from their ids.\<close>

definition without_id :: "HistoryItem \<Rightarrow> HistoryItem" where
  "without_id h = h\<lparr>item_id := 0\<rparr>"

definition entry_of :: "attempt \<Rightarrow> HistoryItem" where
  "entry_of x = (case x of (now, c, item) \<Rightarrow> new_item 0 now c item)"

text \<open>
  The component after the buffer \<open>c\<close> was typed into a fresh session and the
  attempts \<open>xs\<close> were made from it, and the item each attempt should leave.
\<close>

definition session_after :: "runtime \<Rightarrow> jstring \<Rightarrow> (jstring \<times> fetch_outcome) list \<Rightarrow> app" where
  "session_after rt c xs = ui (run rt start (Edit c # sequential xs))"

definition entry_for :: "runtime \<Rightarrow> jstring \<Rightarrow> jstring \<times> fetch_outcome \<Rightarrow> HistoryItem" where
  "entry_for rt c x = entry_of (attempt_of rt (initial\<lparr>code := c\<rparr>) x)"

text \<open>
  The invariant of a session that is never reset: either a request is in flight and the
  state is \<open>Loading\<close>, or none is and the state is another one.
\<close>

definition one_at_a_time :: "session \<Rightarrow> bool" where
  "one_at_a_time s \<longleftrightarrow>
     (if state (ui s) = Loading then length (inflight s) = 1 else inflight s = [])"

section \<open>Concrete inputs\<close>

text \<open>
  An engine for the runs evaluated below, with the messages of V8. Its table of number
  texts holds the integers (which, below ten to the power 21, print as their digits) and
  the infinities; no run below prints another number.
\<close>

definition integer_text :: "jsnum \<Rightarrow> jstring" where
  "integer_text n =
     (case n of
        PosInfinity \<Rightarrow> lit ''Infinity''
      | NegInfinity \<Rightarrow> lit ''-Infinity''
      | Finite r \<Rightarrow>
          if r \<noteq> of_int \<lfloor>r\<rfloor> then []
          else if r < 0 then 0x2D # decimal (nat (- \<lfloor>r\<rfloor>))
          else decimal (nat \<lfloor>r\<rfloor>))"

definition sample_runtime :: runtime where
  "sample_runtime =
     \<lparr>null_read_message = lit ''Cannot read properties of null (reading 'type')'',
      to_primitive_message = lit ''Cannot convert object to primitive value'',
      number_text = integer_text\<rparr>"

text \<open>
  Code buffers: two snippets of 30 and 29 characters and one of three; the request that
  a submission of the first one sends; a time of day.
\<close>

definition sample_code :: jstring where
  "sample_code = lit ''function sum(a,b){return a+b;}''"

definition other_code :: jstring where
  "other_code = lit ''const total = numbers.length;''"

definition short_code :: jstring where
  "short_code = lit ''abc''"

definition sample_request :: request where
  "sample_request = \<lparr>req_code = sample_code, req_language = lit ''auto''\<rparr>"

definition noon :: jstring where
  "noon = lit ''12:00:00''"

text \<open>
  Outcomes of a request: the rejection of \<open>fetch\<close> on a network failure, as Chrome
  words it; the response of scenario B; responses 500 and 503 whose error field is the
  empty text, or absent; a body that is no JSON text; the response of scenario C.
\<close>

definition failed_to_fetch :: fetch_outcome where
  "failed_to_fetch = FetchRejects (ErrorObject (lit ''Failed to fetch''))"

definition scenario_B :: fetch_outcome where
  "scenario_B = Response 500 (JsonOk (JObj [(lit ''error'', JStr (lit ''model unavailable''))]))"

definition empty_error_field :: fetch_outcome where
  "empty_error_field = Response 500 (JsonOk (JObj [(lit ''error'', JStr [])]))"

definition unavailable_body :: fetch_outcome where
  "unavailable_body = Response 503 (JsonOk (JObj []))"

definition unparsable :: body where
  "unparsable = JsonRejects (ErrorObject (lit ''Unexpected token''))"

definition scenario_C_body :: json where
  "scenario_C_body =
     JObj [(lit ''type'', JStr (lit ''human'')),
           (lit ''confidence'', JNum (Finite (- 10))),
           (lit ''reasons'', JArr [])]"

definition scenario_C :: fetch_outcome where
  "scenario_C = Response 200 (JsonOk scenario_C_body)"

text \<open>
  Bodies whose confidence is above the range, below it, a literal that overflows in
  either direction, and a text; the placeholder of the source for reasons that are no
  array; a body whose reasons are a text, and the body of scenario A; a body whose error
  field is a boolean.
\<close>

definition over_range_body :: json where
  "over_range_body =
     JObj [(lit ''type'', JStr (lit ''ai'')), (lit ''confidence'', JNum (Finite (1236 / 10)))]"

definition below_range_body :: json where
  "below_range_body =
     JObj [(lit ''type'', JStr (lit ''ai'')), (lit ''confidence'', JNum (Finite (- 5)))]"

definition overflow_body :: json where
  "overflow_body = JObj [(lit ''confidence'', JNum PosInfinity)]"

definition underflow_body :: json where
  "underflow_body = JObj [(lit ''confidence'', JNum NegInfinity)]"

definition text_confidence_body :: json where
  "text_confidence_body =
     JObj [(lit ''type'', JStr (lit ''ai'')), (lit ''confidence'', JStr (lit ''82''))]"

definition text_reasons_body :: json where
  "text_reasons_body =
     JObj [(lit ''type'', JStr (lit ''ai'')), (lit ''reasons'', JStr (lit ''Few comments''))]"

definition two_reasons_body :: json where
  "two_reasons_body =
     JObj [(lit ''type'', JStr (lit ''ai'')), (lit ''confidence'', JNum (Finite 82)),
           (lit ''reasons'', JArr [JStr (lit ''Few comments''), JStr (lit ''Highly regular formatting'')]),
           (lit ''model'', JStr (lit ''Heuristic + OpenAI''))]"

definition flag_error_body :: json where
  "flag_error_body = JObj [(lit ''error'', JBool True)]"

text \<open>
  Bodies whose error field is a number, an object, an object with a member named
  \<open>toString\<close>, and arrays: an empty one, one of a text, \<open>null\<close>, an array and an
  object, and one holding an object with a member named \<open>toString\<close>.
\<close>

definition count_error_body :: json where
  "count_error_body = JObj [(lit ''error'', JNum (Finite 429))]"

definition object_error_body :: json where
  "object_error_body = JObj [(lit ''error'', JObj [(lit ''code'', JNum (Finite 7))])]"

definition keyed_error_body :: json where
  "keyed_error_body =
     JObj [(lit ''error'', JObj [(lit ''toString'', JStr (lit ''x'')), (lit ''code'', JNum (Finite 7))])]"

definition empty_list_error_body :: json where
  "empty_list_error_body = JObj [(lit ''error'', JArr [])]"

definition list_error_body :: json where
  "list_error_body =
     JObj [(lit ''error'',
            JArr [JStr (lit ''quota''), JNull, JArr [JStr (lit ''hour''), JBool False], JObj []])]"

definition keyed_list_error_body :: json where
  "keyed_list_error_body =
     JObj [(lit ''error'', JArr [JStr (lit ''quota''), JObj [(lit ''toString'', JNull)]])]"

definition no_reasons :: "json list" where
  "no_reasons = [JStr (lit ''No reasons provided by backend.'')]"

text \<open>The first \<open>n\<close> of a series of attempts that fail, at the times 1, 2, ...\<close>

definition failures :: "nat \<Rightarrow> (jstring \<times> fetch_outcome) list" where
  "failures n = map (\<lambda>k. (decimal k, failed_to_fetch)) [1..<Suc n]"

text \<open>
  Runs of the session: an attempt that fails; the same followed by an edit of the
  buffer, to three characters or to another snippet, and a click on Retry, or by a click
  on Clear Text; and a reset while the request is in flight, followed by a new
  submission.
\<close>

definition failed_attempt :: "event list" where
  "failed_attempt = [Edit sample_code, ClickAnalyze, Settle 0 noon failed_to_fetch]"

definition shortened :: "event list" where
  "shortened = failed_attempt @ [Edit short_code]"

definition retry_short :: "event list" where
  "retry_short = shortened @ [ClickRetry]"




definition reset_in_flight :: "event list" where
  "reset_in_flight = [Edit sample_code, ClickAnalyze, ClickReset]"

definition resubmit_after_reset :: "event list" where
  "resubmit_after_reset = reset_in_flight @ [Edit other_code, ClickAnalyze]"

section \<open>Auxiliary facts\<close>

lemma length_addToHistory:
  "length (addToHistory now c item prev) = min 10 (Suc (length prev))"
  by (simp add: addToHistory_def)

lemma take_append_take: "take n (xs @ take n ys) = take n (xs @ ys)"
  by (simp add: min_def)

lemma without_id_new_item: "without_id (new_item n now c item) = new_item 0 now c item"
  by (simp add: without_id_def new_item_def)

lemma without_id_addToHistory:
  "map without_id (addToHistory now c item h) = take 10 (new_item 0 now c item # map without_id h)"
  by (simp only: addToHistory_def take_map [symmetric] list.map without_id_new_item)

lemma record_attempts_entries:
  "length h \<le> 10 \<Longrightarrow>
   map without_id (record_attempts h as) = take 10 (rev (map entry_of as) @ map without_id h)"
proof (induction as arbitrary: h)
  case Nil
  then show ?case by simp
next
  case (Cons a as)
  obtain now c item where a: "a = (now, c, item)" by (cases a) auto
  have "length (addToHistory now c item h) \<le> 10" by (simp add: length_addToHistory)
  then have "map without_id (record_attempts h (a # as)) =
      take 10 (rev (map entry_of as) @ map without_id (addToHistory now c item h))"
    by (simp add: a Cons.IH)
  also have "\<dots> = take 10 (rev (map entry_of as) @ entry_of a # map without_id h)"
    by (simp only: without_id_addToHistory take_append_take a entry_of_def prod.case)
  finally show ?case by simp
qed

lemma length_record_attempts:
  "length h \<le> 10 \<Longrightarrow> length (record_attempts h as) = min 10 (length h + length as)"
proof (induction as arbitrary: h)
  case Nil
  then show ?case by simp
next
  case (Cons a as)
  obtain now c item where a: "a = (now, c, item)" by (cases a) auto
  show ?case using Cons.prems
    by (simp add: a Cons.IH length_addToHistory)
qed

lemma clamp_finite:
  "clamp_confidence (Finite r) = Finite (of_int (max 0 (min 100 \<lfloor>r + 1 / 2\<rfloor>)))"
  by (simp add: clamp_confidence_def Math_max_def Math_min_def max_def min_def)

lemma clamp_inf: "clamp_confidence PosInfinity = Finite 100" "clamp_confidence NegInfinity = Finite 0"
  by (simp_all add: clamp_confidence_def Math_max_def Math_min_def)

lemma clamp_range: "\<exists>n::int. 0 \<le> n \<and> n \<le> 100 \<and> clamp_confidence c = Finite (of_int n)"
proof (cases c)
  case (Finite r)
  show ?thesis unfolding Finite clamp_finite
    by (rule exI [of _ "max 0 (min 100 \<lfloor>r + 1 / 2\<rfloor>)"]) simp
next
  case PosInfinity
  then show ?thesis by (auto simp: clamp_inf intro: exI [of _ 100])
next
  case NegInfinity
  then show ?thesis by (auto simp: clamp_inf intro: exI [of _ 0])
qed


lemma complete_history:
  "history (complete rt rq now out a) =
     addToHistory now (req_code rq) (history_arg rt rq out) (history a)"
  by (simp add: complete_def history_arg_def split: sum.split)

lemma complete_state: "state (complete rt rq now out a) = Result \<or> state (complete rt rq now out a) = Error"
  by (simp add: complete_def split: sum.split)

lemma complete_code: "code (complete rt rq now out a) = code a" "language (complete rt rq now out a) = language a"
  by (simp_all add: complete_def split: sum.split)

lemma valid_not_empty: "isCodeValid a \<Longrightarrow> trim (code a) \<noteq> []"
  by (auto simp: isCodeValid_def MIN_CODE_LENGTH_def)

lemma one_attempt:
  assumes "inflight s = []" "state (ui s) \<noteq> Loading" "isCodeValid (ui s)"
  shows "step rt (step rt s ClickAnalyze) (Settle 0 now out) =
     \<lparr>ui = complete rt \<lparr>req_code = code (ui s), req_language = language (ui s)\<rparr> now out
             ((ui s)\<lparr>state := Loading, errorMessage := None\<rparr>),
      inflight = []\<rparr>"
  using assms valid_not_empty [OF assms(3)]
  by (simp add: analyze_disabled_def isLoading_def submit_def handleAnalyze_def)

lemma sequential_history:
  assumes "inflight s = []" "state (ui s) \<noteq> Loading" "isCodeValid (ui s)"
  shows "history (ui (run rt s (sequential xs))) =
         record_attempts (history (ui s)) (map (attempt_of rt (ui s)) xs)"
  using assms
proof (induction xs arbitrary: s)
  case Nil
  then show ?case by (simp add: run_def sequential_def)
next
  case (Cons x xs)
  obtain now out where x: "x = (now, out)" by (cases x) auto
  define rq where "rq = \<lparr>req_code = code (ui s), req_language = language (ui s)\<rparr>"
  define t where "t = step rt (step rt s ClickAnalyze) (Settle 0 now out)"
  have t: "t = \<lparr>ui = complete rt rq now out ((ui s)\<lparr>state := Loading, errorMessage := None\<rparr>),
                 inflight = []\<rparr>"
    unfolding t_def rq_def by (rule one_attempt) (use Cons.prems in auto)
  have run: "run rt s (sequential (x # xs)) = run rt t (sequential xs)"
    by (simp add: run_def sequential_def x t_def del: step.simps)
  have a: "inflight t = []" by (simp add: t)
  have b: "state (ui t) \<noteq> Loading"
    using complete_state [of rt rq now out "(ui s)\<lparr>state := Loading, errorMessage := None\<rparr>"]
    by (auto simp add: t)
  have c: "code (ui t) = code (ui s)" "language (ui t) = language (ui s)"
    by (simp_all add: t complete_code)
  have d: "isCodeValid (ui t)" using Cons.prems(3) c by (simp add: isCodeValid_def)
  have e: "attempt_of rt (ui t) = attempt_of rt (ui s)"
    by (rule ext) (simp add: attempt_of_def c)
  have h: "history (ui t) = addToHistory now (code (ui s)) (history_arg rt rq out) (history (ui s))"
    by (simp add: t complete_history rq_def)
  have "history (ui (run rt s (sequential (x # xs)))) = history (ui (run rt t (sequential xs)))"
    by (simp only: run)
  also have "\<dots> = record_attempts (history (ui t)) (map (attempt_of rt (ui t)) xs)"
    by (rule Cons.IH [OF a b d])
  also have "\<dots> = record_attempts (history (ui s)) (map (attempt_of rt (ui s)) (x # xs))"
    by (simp add: e h x attempt_of_def rq_def)
  finally show ?case .
qed

lemma step_history_le: "length (history (ui s)) \<le> 10 \<Longrightarrow> length (history (ui (step rt s ev))) \<le> 10"
  by (cases ev) (auto simp: handleClearText_def handleReset_def submit_def handleAnalyze_def
        complete_history length_addToHistory)

lemma run_history_le: "length (history (ui s)) \<le> 10 \<Longrightarrow> length (history (ui (run rt s evs))) \<le> 10"
  unfolding run_def by (induction evs arbitrary: s) (simp_all add: step_history_le)

lemma history_session_after:
  assumes "MIN_CODE_LENGTH \<le> length (trim c)"
  shows "history (session_after rt c xs) =
         record_attempts [] (map (attempt_of rt (initial\<lparr>code := c\<rparr>)) xs)"
proof -
  define s where "s = step rt start (Edit c)"
  have s: "s = \<lparr>ui = initial\<lparr>code := c\<rparr>, inflight = []\<rparr>"
    by (simp add: s_def start_def)
  have "history (ui (run rt s (sequential xs))) =
        record_attempts (history (ui s)) (map (attempt_of rt (ui s)) xs)"
    by (rule sequential_history) (use assms in \<open>simp_all add: s initial_def isCodeValid_def\<close>)
  moreover have "run rt start (Edit c # sequential xs) = run rt s (sequential xs)"
    by (simp add: run_def s_def)
  ultimately show ?thesis by (simp add: session_after_def s initial_def)
qed

lemma entries_session_after:
  assumes "MIN_CODE_LENGTH \<le> length (trim c)"
  shows "map without_id (history (session_after rt c xs)) = take 10 (rev (map (entry_for rt c) xs))"
proof -
  have "entry_for rt c = (\<lambda>x. entry_of (attempt_of rt (initial\<lparr>code := c\<rparr>) x))"
    by (rule ext) (simp add: entry_for_def)
  then show ?thesis
    by (simp add: history_session_after [OF assms] record_attempts_entries rev_map comp_def)
qed

lemma sample_code_valid: "MIN_CODE_LENGTH \<le> length (trim sample_code)"
  by (simp add: MIN_CODE_LENGTH_def sample_code_def lit_def trim_def isWhiteSpace_def)

lemma length_failures: "length (failures n) = n"
  by (simp add: failures_def)

lemma complete_ok:
  "res_ok st \<Longrightarrow> dataRaw \<noteq> JNull \<Longrightarrow>
   complete rt rq now (Response st (JsonOk dataRaw)) a =
     a\<lparr> result := Some (normalized dataRaw), state := Result,
        history := addToHistory now (req_code rq)
          \<lparr>arg_language = req_language rq, arg_status = success,
           arg_result = Some (normalized dataRaw), arg_errorMessage = None\<rparr> (history a) \<rparr>"
  by (cases dataRaw) (simp_all add: complete_def try_block_def)

lemma complete_caught:
  "try_block rt out = Inl err \<Longrightarrow>
   complete rt rq now out a =
     a\<lparr> errorMessage := Some (catch_message err), result := None, state := Error,
        history := addToHistory now (req_code rq)
          \<lparr>arg_language = req_language rq, arg_status = error,
           arg_result = None, arg_errorMessage = Some (catch_message err)\<rparr> (history a) \<rparr>"
  by (simp add: complete_def)

lemma round_near: "\<bar>of_int \<lfloor>r + 1 / 2\<rfloor> - r\<bar> \<le> (1 / 2 :: rat)"
  by linarith

lemma get_confidence:
  "get_prop over_range_body (lit ''confidence'') = Some (JNum (Finite (1236 / 10)))"
  "get_prop below_range_body (lit ''confidence'') = Some (JNum (Finite (- 5)))"
  "get_prop text_confidence_body (lit ''confidence'') = Some (JStr (lit ''82''))"
  by (simp_all add: over_range_body_def below_range_body_def text_confidence_body_def lit_def)

lemma session_after_one:
  assumes "MIN_CODE_LENGTH \<le> length (trim c)"
  shows "session_after rt c [(now, out)] =
         complete rt \<lparr>req_code = c, req_language = lit ''auto''\<rparr> now out
           (initial\<lparr>code := c, state := Loading, errorMessage := None\<rparr>)"
proof -
  define s where "s = step rt start (Edit c)"
  have s: "s = \<lparr>ui = initial\<lparr>code := c\<rparr>, inflight = []\<rparr>"
    by (simp add: s_def start_def)
  have "step rt (step rt s ClickAnalyze) (Settle 0 now out) =
     \<lparr>ui = complete rt \<lparr>req_code = code (ui s), req_language = language (ui s)\<rparr> now out
             ((ui s)\<lparr>state := Loading, errorMessage := None\<rparr>),
      inflight = []\<rparr>"
    by (rule one_attempt) (use assms in \<open>simp_all add: s initial_def isCodeValid_def\<close>)
  moreover have "session_after rt c [(now, out)] =
      ui (step rt (step rt s ClickAnalyze) (Settle 0 now out))"
    by (simp add: session_after_def run_def sequential_def s_def del: step.simps)
  ultimately show ?thesis by (simp add: s initial_def)
qed

lemma get_scenario_C:
  "get_prop scenario_C_body (lit ''type'') = Some (JStr (lit ''human''))"
  "get_prop scenario_C_body (lit ''confidence'') = Some (JNum (Finite (- 10)))"
  "get_prop scenario_C_body (lit ''reasons'') = Some (JArr [])"
  "get_prop scenario_C_body (lit ''model'') = None"
  by (simp_all add: scenario_C_body_def lit_def)

lemma normalized_scenario_C:
  "normalized scenario_C_body =
     \<lparr>rtype = human, confidence = Finite 0, reasons = [], model = JStr (lit ''Heuristic'')\<rparr>"
proof -
  have "\<lfloor>(- 10 :: rat) + 1 / 2\<rfloor> = - 10" by (rule floor_unique) simp_all
  moreover have "lit ''human'' \<noteq> lit ''ai''" by (simp add: lit_def)
  ultimately show ?thesis
    by (simp add: normalized_def get_scenario_C clamp_finite)
qed

lemma scenario_C_ok: "res_ok 200" "scenario_C_body \<noteq> JNull"
  by (simp_all add: res_ok_def scenario_C_body_def)

lemma complete_not_ok:
  "\<not> res_ok st \<Longrightarrow>
   complete rt rq now (Response st b) a =
     a\<lparr> errorMessage := Some (catch_message (server_error rt st b)), result := None,
        state := Error,
        history := addToHistory now (req_code rq)
          \<lparr>arg_language = req_language rq, arg_status = error,
           arg_result = None,
           arg_errorMessage = Some (catch_message (server_error rt st b))\<rparr> (history a) \<rparr>"
  by (rule complete_caught) (simp add: try_block_def)

lemma complete_rejected:
  "complete rt rq now (FetchRejects t) a =
     a\<lparr> errorMessage := Some (catch_message t), result := None, state := Error,
        history := addToHistory now (req_code rq)
          \<lparr>arg_language = req_language rq, arg_status = error,
           arg_result = None, arg_errorMessage = Some (catch_message t)\<rparr> (history a) \<rparr>"
  by (rule complete_caught) (simp add: try_block_def)

lemma backendMessage_truthy:
  "get_prop errJson (lit ''error'') = Some v \<Longrightarrow> truthy v \<Longrightarrow>
   backendMessage (JsonOk errJson) = v"
  by (cases errJson) (simp_all add: backendMessage_def)

lemma backendMessage_falsy:
  "get_prop errJson (lit ''error'') = None \<or>
   (\<exists>v. get_prop errJson (lit ''error'') = Some v \<and> \<not> truthy v) \<Longrightarrow>
   backendMessage (JsonOk errJson) = JStr []"
  by (cases errJson) (auto simp: backendMessage_def)

lemma status_500: "status_message 500 = lit ''Server error (status 500)''"
  by (simp add: status_message_def decimal.simps lit_def)

lemma status_503: "status_message 503 = lit ''Server error (status 503)''"
  by (simp add: status_message_def decimal.simps lit_def)

lemma trim_sample_code: "trim sample_code \<noteq> []"
  using sample_code_valid by (auto simp: MIN_CODE_LENGTH_def)

lemma other_code_valid: "MIN_CODE_LENGTH \<le> length (trim other_code)"
  by (simp add: MIN_CODE_LENGTH_def other_code_def lit_def trim_def isWhiteSpace_def)

lemma trim_short_code: "trim short_code = short_code" "length short_code = 3" "short_code \<noteq> []"
  by (simp_all add: short_code_def lit_def trim_def isWhiteSpace_def)

lemma run_append: "run rt s (xs @ ys) = run rt (run rt s xs) ys"
  by (simp add: run_def)

lemma run_Cons: "run rt s (ev # evs) = run rt (step rt s ev) evs"
  by (simp add: run_def)

lemma run_Nil: "run rt s [] = s"
  by (simp add: run_def)

lemma after_failed_attempt:
  "run sample_runtime start failed_attempt =
     \<lparr>ui = \<lparr>code = sample_code, language = lit ''auto'', state = Error, result = None,
            errorMessage = Some (lit ''Failed to fetch''),
            history = [new_item 1 noon sample_code
              \<lparr>arg_language = lit ''auto'', arg_status = error, arg_result = None,
               arg_errorMessage = Some (lit ''Failed to fetch'')\<rparr>]\<rparr>,
      inflight = []\<rparr>"
  by (simp add: failed_attempt_def run_Cons run_Nil start_def initial_def analyze_disabled_def
      isLoading_def isCodeValid_def sample_code_valid submit_def handleAnalyze_def
      trim_sample_code complete_rejected failed_to_fetch_def catch_message_def addToHistory_def)

lemma after_reset_in_flight:
  "run sample_runtime start reset_in_flight =
     \<lparr>ui = initial, inflight = [sample_request]\<rparr>"
  by (simp add: reset_in_flight_def run_Cons run_Nil start_def initial_def analyze_disabled_def
      isLoading_def isCodeValid_def sample_code_valid submit_def handleAnalyze_def
      trim_sample_code handleReset_def sample_request_def)

lemma submit_sends:
  "trim (code (ui s)) \<noteq> [] \<Longrightarrow>
   submit s = \<lparr>ui = (ui s)\<lparr>state := Loading, errorMessage := None\<rparr>,
               inflight = inflight s @ [\<lparr>req_code = code (ui s), req_language = language (ui s)\<rparr>]\<rparr>"
  by (simp add: submit_def handleAnalyze_def)

lemma step_one_at_a_time:
  assumes "one_at_a_time s" "ev \<noteq> ClickReset"
  shows "one_at_a_time (step rt s ev)"
proof (cases ev)
  case ClickAnalyze
  show ?thesis
  proof (cases "analyze_disabled (ui s)")
    case True
    with assms ClickAnalyze show ?thesis by simp
  next
    case False
    then have "state (ui s) \<noteq> Loading" "trim (code (ui s)) \<noteq> []"
      by (auto simp: analyze_disabled_def isLoading_def valid_not_empty)
    with assms ClickAnalyze False show ?thesis
      by (simp add: submit_sends one_at_a_time_def)
  qed
next
  case ClickRetry
  show ?thesis
  proof (cases "retry_rendered (ui s) \<and> \<not> retry_disabled (ui s)")
    case True
    then have "state (ui s) \<noteq> Loading" "trim (code (ui s)) \<noteq> []"
      by (auto simp: retry_rendered_def retry_disabled_def)
    with assms ClickRetry True show ?thesis
      by (simp add: submit_sends one_at_a_time_def)
  next
    case False
    with assms ClickRetry show ?thesis by auto
  qed
next
  case (Settle i now out)
  show ?thesis
  proof (cases "i < length (inflight s)")
    case True
    with assms have "length (inflight s) = 1" "i = 0"
      by (auto simp: one_at_a_time_def split: if_splits)
    with Settle True show ?thesis
      using complete_state [of rt "inflight s ! 0" now out "ui s"]
      by (auto simp: one_at_a_time_def)
  next
    case False
    with assms Settle show ?thesis by simp
  qed
qed (use assms in \<open>auto simp: one_at_a_time_def handleClearText_def\<close>)

lemma run_one_at_a_time:
  "one_at_a_time s \<Longrightarrow> ClickReset \<notin> set evs \<Longrightarrow> one_at_a_time (run rt s evs)"
proof (induction evs arbitrary: s)
  case Nil
  then show ?case by (simp add: run_Nil)
next
  case (Cons ev evs)
  then have "ev \<noteq> ClickReset" "ClickReset \<notin> set evs" by auto
  with Cons.prems(1) have "one_at_a_time (step rt s ev)"
    by (intro step_one_at_a_time)
  then have "one_at_a_time (run rt (step rt s ev) evs)"
    using \<open>ClickReset \<notin> set evs\<close> by (rule Cons.IH)
  then show ?case by (simp only: run_Cons)
qed

lemma trim_other_code: "trim other_code \<noteq> []"
  using other_code_valid by (auto simp: MIN_CODE_LENGTH_def)

lemma after_resubmit:
  "run sample_runtime start resubmit_after_reset =
     \<lparr>ui = initial\<lparr>code := other_code, state := Loading\<rparr>,
      inflight = [sample_request, \<lparr>req_code = other_code, req_language = lit ''auto''\<rparr>]\<rparr>"
  by (simp add: resubmit_after_reset_def run_append after_reset_in_flight run_Cons run_Nil
      initial_def analyze_disabled_def isLoading_def isCodeValid_def other_code_valid
      submit_def handleAnalyze_def trim_other_code sample_request_def)

lemma after_loading:
  "run sample_runtime start [Edit sample_code, ClickAnalyze] =
     \<lparr>ui = initial\<lparr>code := sample_code, state := Loading\<rparr>, inflight = [sample_request]\<rparr>"
  by (simp add: run_Cons run_Nil start_def initial_def analyze_disabled_def
      isLoading_def isCodeValid_def sample_code_valid submit_def handleAnalyze_def
      trim_sample_code sample_request_def)

lemma get_overflow:
  "get_prop overflow_body (lit ''confidence'') = Some (JNum PosInfinity)"
  "get_prop underflow_body (lit ''confidence'') = Some (JNum NegInfinity)"
  by (simp_all add: overflow_body_def underflow_body_def)

lemma get_error:
  "get_prop (JObj [(lit ''error'', JStr (lit ''model unavailable''))]) (lit ''error'') =
     Some (JStr (lit ''model unavailable''))"
  "get_prop flag_error_body (lit ''error'') = Some (JBool True)"
  "get_prop (JObj []) (lit ''error'') = None"
  "get_prop count_error_body (lit ''error'') = Some (JNum (Finite 429))"
  "get_prop object_error_body (lit ''error'') = Some (JObj [(lit ''code'', JNum (Finite 7))])"
  "get_prop keyed_error_body (lit ''error'') =
     Some (JObj [(lit ''toString'', JStr (lit ''x'')), (lit ''code'', JNum (Finite 7))])"
  "get_prop empty_list_error_body (lit ''error'') = Some (JArr [])"
  "get_prop list_error_body (lit ''error'') =
     Some (JArr [JStr (lit ''quota''), JNull, JArr [JStr (lit ''hour''), JBool False], JObj []])"
  "get_prop keyed_list_error_body (lit ''error'') =
     Some (JArr [JStr (lit ''quota''), JObj [(lit ''toString'', JNull)]])"
  by (simp_all add: flag_error_body_def count_error_body_def object_error_body_def
      keyed_error_body_def empty_list_error_body_def list_error_body_def
      keyed_list_error_body_def)

lemma error_field_message:
  assumes "\<not> res_ok st" "get_prop errJson (lit ''error'') = Some v" "truthy v"
  shows "errorMessage (complete rt rq now (Response st (JsonOk errJson)) a) =
         Some (case ToString (number_text rt) v of
                 Some m \<Rightarrow> m
               | None \<Rightarrow> to_primitive_message rt)"
  using assms
  by (simp add: complete_not_ok server_error_def catch_message_def backendMessage_truthy
      split: option.split)

lemma integer_text_429: "integer_text (Finite 429) = lit ''429''"
  by (simp add: integer_text_def decimal.simps lit_def)

lemma not_ok: "\<not> res_ok 500" "\<not> res_ok 503"
  by (simp_all add: res_ok_def)

lemma normalized_confidence_range:
  "\<exists>n::int. 0 \<le> n \<and> n \<le> 100 \<and> confidence (normalized dataRaw) = Finite (of_int n)"
proof (cases "\<exists>c. get_prop dataRaw (lit ''confidence'') = Some (JNum c)")
  case True
  then obtain c where "get_prop dataRaw (lit ''confidence'') = Some (JNum c)" ..
  then have "confidence (normalized dataRaw) = clamp_confidence c"
    by (simp add: normalized_def)
  then show ?thesis using clamp_range [of c] by simp
next
  case False
  then have "confidence (normalized dataRaw) = Finite 55"
    by (auto simp: normalized_def split: option.splits json.splits)
  then show ?thesis by (auto intro: exI [of _ 55])
qed

lemma complete_ok_null:
  "res_ok st \<Longrightarrow>
   complete rt rq now (Response st (JsonOk JNull)) a =
     a\<lparr> errorMessage := Some (null_read_message rt), result := None, state := Error,
        history := addToHistory now (req_code rq)
          \<lparr>arg_language = req_language rq, arg_status = error,
           arg_result = None, arg_errorMessage = Some (null_read_message rt)\<rparr> (history a) \<rparr>"
  by (simp add: complete_def try_block_def catch_message_def)

lemma complete_ok_rejects:
  "res_ok st \<Longrightarrow>
   complete rt rq now (Response st (JsonRejects t)) a =
     a\<lparr> errorMessage := Some (catch_message t), result := None, state := Error,
        history := addToHistory now (req_code rq)
          \<lparr>arg_language = req_language rq, arg_status = error,
           arg_result = None, arg_errorMessage = Some (catch_message t)\<rparr> (history a) \<rparr>"
  by (simp add: complete_def try_block_def)

lemma stored_result_range:
  assumes "res_ok st" "result (complete rt rq now (Response st b) a) = Some r"
  shows "\<exists>n::int. 0 \<le> n \<and> n \<le> 100 \<and> confidence r = Finite (of_int n)"
proof (cases b)
  case (JsonRejects t)
  with assms show ?thesis by (simp add: complete_ok_rejects)
next
  case (JsonOk dataRaw)
  show ?thesis
  proof (cases "dataRaw = JNull")
    case True
    with assms JsonOk show ?thesis by (simp add: complete_ok_null)
  next
    case False
    with assms JsonOk have "r = normalized dataRaw" by (simp add: complete_ok)
    then show ?thesis using normalized_confidence_range [of dataRaw] by simp
  qed
qed



lemma get_reasons:
  "get_prop text_reasons_body (lit ''reasons'') = Some (JStr (lit ''Few comments''))"
  "get_prop over_range_body (lit ''reasons'') = None"
  "get_prop two_reasons_body (lit ''reasons'') =
     Some (JArr [JStr (lit ''Few comments''), JStr (lit ''Highly regular formatting'')])"
  by (simp_all add: text_reasons_body_def over_range_body_def two_reasons_body_def lit_def)

section \<open>The history: capacity and order\<close>

text \<open>
  Claim C4, as the code has it. At every point of every run the history holds at most
  10 items; \<open>addToHistory\<close> puts the new item at the head and keeps the first nine of
  the items before it; after any number of attempts made one after the other the history
  is, ids apart, the ten newest attempts, newest first; and after 11 attempts it is the
  attempts 2 to 11, newest first: the item of the first attempt is gone and the 10 most
  recent ones are present.
\<close>

theorem history_capped_newest_first:
  "length (history (ui (run rt start evs))) \<le> 10
   \<and> hd (addToHistory now c item prev) = new_item (length prev + 1) now c item
   \<and> tl (addToHistory now c item prev) = take 9 prev
   \<and> (MIN_CODE_LENGTH \<le> length (trim c) \<longrightarrow>
        map without_id (history (session_after rt c xs)) = take 10 (rev (map (entry_for rt c) xs)))
   \<and> (MIN_CODE_LENGTH \<le> length (trim c) \<and> length xs = 11 \<longrightarrow>
        map without_id (history (session_after rt c xs)) = rev (map (entry_for rt c) (tl xs)))"
proof (intro conjI impI)
  show "length (history (ui (run rt start evs))) \<le> 10"
    by (rule run_history_le) (simp add: start_def initial_def)
  show "hd (addToHistory now c item prev) = new_item (length prev + 1) now c item"
    by (simp add: addToHistory_def)
  show "tl (addToHistory now c item prev) = take 9 prev"
    by (simp add: addToHistory_def)
  show "map without_id (history (session_after rt c xs)) = take 10 (rev (map (entry_for rt c) xs))"
    if "MIN_CODE_LENGTH \<le> length (trim c)"
    by (rule entries_session_after [OF that])
  show "map without_id (history (session_after rt c xs)) = rev (map (entry_for rt c) (tl xs))"
    if h: "MIN_CODE_LENGTH \<le> length (trim c) \<and> length xs = 11"
  proof -
    from h obtain x ys where xs: "xs = x # ys" and ys: "length ys = 10"
      by (cases xs) auto
    show ?thesis using h ys
      by (simp add: entries_session_after xs)
  qed
qed

text \<open>The theorem at eleven failed attempts from the sample buffer.\<close>

theorem history_capped_newest_first_witness:
  "MIN_CODE_LENGTH \<le> length (trim sample_code) \<and> length (failures 11) = 11
   \<and> map without_id (history (session_after sample_runtime sample_code (failures 11))) =
       rev (map (entry_for sample_runtime sample_code) (tl (failures 11)))"
proof -
  have h: "MIN_CODE_LENGTH \<le> length (trim sample_code) \<and> length (failures 11) = 11"
    by (simp add: sample_code_valid length_failures)
  with history_capped_newest_first
    [where rt = sample_runtime and c = sample_code and xs = "failures 11" and evs = "[]"
       and prev = "[]"]
  show ?thesis by blast
qed

text \<open>
  Claim C4 as it is worded asks for the 11 most recent items after 11 attempts. The
  history then holds 10 items, and is not the list of the eleven attempts.
\<close>

theorem eleventh_attempt_counterexample:
  "length (history (session_after sample_runtime sample_code (failures 11))) = 10
   \<and> map without_id (history (session_after sample_runtime sample_code (failures 11))) \<noteq>
       rev (map (entry_for sample_runtime sample_code) (failures 11))"
proof
  have "length (map without_id (history (session_after sample_runtime sample_code (failures 11)))) = 10"
    by (simp only: entries_session_after [OF sample_code_valid]) (simp add: length_failures)
  then show len: "length (history (session_after sample_runtime sample_code (failures 11))) = 10"
    by simp
  show "map without_id (history (session_after sample_runtime sample_code (failures 11))) \<noteq>
       rev (map (entry_for sample_runtime sample_code) (failures 11))"
  proof
    assume "map without_id (history (session_after sample_runtime sample_code (failures 11))) =
       rev (map (entry_for sample_runtime sample_code) (failures 11))"
    then have "length (map without_id (history (session_after sample_runtime sample_code (failures 11)))) =
       length (rev (map (entry_for sample_runtime sample_code) (failures 11)))"
      by (rule arg_cong)
    with len show False by (simp add: length_failures)
  qed
qed

section \<open>Reset\<close>

text \<open>
  Claim C5. The Reset button is enabled in every state. A click on it yields the state
  \<open>Empty\<close>, empties the code buffer, discards the result and the error message, and
  leaves the history as it was, in length and in contents.
\<close>

theorem reset_yields_empty:
  "state (ui (step rt s ClickReset)) = Empty
   \<and> code (ui (step rt s ClickReset)) = []
   \<and> result (ui (step rt s ClickReset)) = None
   \<and> errorMessage (ui (step rt s ClickReset)) = None
   \<and> history (ui (step rt s ClickReset)) = history (ui s)
   \<and> length (history (ui (step rt s ClickReset))) = length (history (ui s))
   \<and> handleReset a = \<lparr>code = [], language = language a, state = Empty, result = None,
                        errorMessage = None, history = history a\<rparr>"
  by (simp add: handleReset_def)

section \<open>The ids of history items\<close>

text \<open>
  Claim C10 at twelve attempts made one after the other. The id of a new item is the
  length of the history before it plus one, and that length stays at 10 once the cap is
  reached: the eleventh and the twelfth item both get the id 11, so the ids of the history
  are not distinct and the later item's id is not the greater one.
\<close>

theorem ids_repeat_after_cap:
  "map item_id (history (session_after sample_runtime sample_code (failures 12))) =
     [11, 11, 10, 9, 8, 7, 6, 5, 4, 3]"
  by (simp add: history_session_after [OF sample_code_valid] failures_def attempt_of_def
      addToHistory_def new_item_def upt_rec)

section \<open>Normalizing the confidence\<close>

text \<open>
  Claim C2. Whatever a response with a status from 200 to 299 carries, the result it
  leaves in the component, if it leaves one, has a confidence that is an integer from 0
  to 100. A body that parses to a value other than \<open>null\<close> puts the component in state
  \<open>Result\<close> with the normalized body as result; a body that is \<open>null\<close> or does not
  parse leaves no result, the state being \<open>Error\<close>. The confidence of a normalized
  body is always an integer from 0 to 100: a numeric raw confidence is rounded to the
  nearest integer (at most one half away) and clamped, an infinite one is clamped to 100
  or 0, and every raw confidence that is not a number, an absent one too, becomes 55.
  The raw value 123.6 gives 100 and -5 gives 0.
\<close>

theorem stored_confidence_in_range:
  "(res_ok st \<longrightarrow>
      (\<forall>r. result (complete rt rq now (Response st b) a) = Some r \<longrightarrow>
         (\<exists>n::int. 0 \<le> n \<and> n \<le> 100 \<and> confidence r = Finite (of_int n))))
   \<and> (res_ok st \<and> dataRaw \<noteq> JNull \<longrightarrow>
      state (complete rt rq now (Response st (JsonOk dataRaw)) a) = Result \<and>
      result (complete rt rq now (Response st (JsonOk dataRaw)) a) = Some (normalized dataRaw))
   \<and> (res_ok st \<longrightarrow>
      state (complete rt rq now (Response st (JsonOk JNull)) a) = Error \<and>
      result (complete rt rq now (Response st (JsonOk JNull)) a) = None)
   \<and> (res_ok st \<longrightarrow>
      state (complete rt rq now (Response st (JsonRejects t)) a) = Error \<and>
      result (complete rt rq now (Response st (JsonRejects t)) a) = None)
   \<and> (\<exists>n::int. 0 \<le> n \<and> n \<le> 100 \<and> confidence (normalized dataRaw) = Finite (of_int n))
   \<and> (get_prop dataRaw (lit ''confidence'') = Some (JNum (Finite r)) \<longrightarrow>
        confidence (normalized dataRaw) = Finite (of_int (max 0 (min 100 \<lfloor>r + 1 / 2\<rfloor>)))
        \<and> \<bar>of_int \<lfloor>r + 1 / 2\<rfloor> - r\<bar> \<le> 1 / 2)
   \<and> (get_prop dataRaw (lit ''confidence'') = Some (JNum PosInfinity) \<longrightarrow>
        confidence (normalized dataRaw) = Finite 100)
   \<and> (get_prop dataRaw (lit ''confidence'') = Some (JNum NegInfinity) \<longrightarrow>
        confidence (normalized dataRaw) = Finite 0)
   \<and> ((\<forall>c. get_prop dataRaw (lit ''confidence'') \<noteq> Some (JNum c)) \<longrightarrow>
        confidence (normalized dataRaw) = Finite 55)
   \<and> confidence (normalized over_range_body) = Finite 100
   \<and> confidence (normalized below_range_body) = Finite 0"
proof (intro conjI impI allI)
  show "\<exists>n::int. 0 \<le> n \<and> n \<le> 100 \<and> confidence x = Finite (of_int n)"
    if "res_ok st" "result (complete rt rq now (Response st b) a) = Some x" for x
    using that by (rule stored_result_range)
  show "state (complete rt rq now (Response st (JsonOk dataRaw)) a) = Result"
    if "res_ok st \<and> dataRaw \<noteq> JNull"
    using that by (simp add: complete_ok)
  show "result (complete rt rq now (Response st (JsonOk dataRaw)) a) = Some (normalized dataRaw)"
    if "res_ok st \<and> dataRaw \<noteq> JNull"
    using that by (simp add: complete_ok)
  show "state (complete rt rq now (Response st (JsonOk JNull)) a) = Error"
    "result (complete rt rq now (Response st (JsonOk JNull)) a) = None"
    if "res_ok st"
    using that by (simp_all add: complete_ok_null)
  show "state (complete rt rq now (Response st (JsonRejects t)) a) = Error"
    "result (complete rt rq now (Response st (JsonRejects t)) a) = None"
    if "res_ok st"
    using that by (simp_all add: complete_ok_rejects)
  show "\<exists>n::int. 0 \<le> n \<and> n \<le> 100 \<and> confidence (normalized dataRaw) = Finite (of_int n)"
    by (rule normalized_confidence_range)
  show "confidence (normalized dataRaw) = Finite (of_int (max 0 (min 100 \<lfloor>r + 1 / 2\<rfloor>)))"
    if "get_prop dataRaw (lit ''confidence'') = Some (JNum (Finite r))"
    using that by (simp add: normalized_def clamp_finite)
  show "\<bar>of_int \<lfloor>r + 1 / 2\<rfloor> - r\<bar> \<le> 1 / 2"
    by (rule round_near)
  show "confidence (normalized dataRaw) = Finite 100"
    if "get_prop dataRaw (lit ''confidence'') = Some (JNum PosInfinity)"
    using that by (simp add: normalized_def clamp_inf)
  show "confidence (normalized dataRaw) = Finite 0"
    if "get_prop dataRaw (lit ''confidence'') = Some (JNum NegInfinity)"
    using that by (simp add: normalized_def clamp_inf)
  show "confidence (normalized dataRaw) = Finite 55"
    if "\<forall>c. get_prop dataRaw (lit ''confidence'') \<noteq> Some (JNum c)"
    using that by (auto simp: normalized_def split: option.splits json.splits)
  have "\<lfloor>(1236 / 10 :: rat) + 1 / 2\<rfloor> = 124" by (rule floor_unique) simp_all
  then show "confidence (normalized over_range_body) = Finite 100"
    by (simp add: normalized_def get_confidence clamp_finite)
  have "\<lfloor>(- 5 :: rat) + 1 / 2\<rfloor> = - 5" by (rule floor_unique) simp_all
  then show "confidence (normalized below_range_body) = Finite 0"
    by (simp add: normalized_def get_confidence clamp_finite)
qed

text \<open>
  The theorem at responses 200 with the confidence 123.6, with a body that is
  \<open>null\<close> and with one that is no JSON text, and at bodies with an overflowing
  confidence of either sign and with a confidence that is a text.
\<close>

theorem stored_confidence_in_range_witness:
  "res_ok 200 \<and> over_range_body \<noteq> JNull
   \<and> state (complete sample_runtime sample_request noon
        (Response 200 (JsonOk over_range_body)) initial) = Result
   \<and> result (complete sample_runtime sample_request noon
        (Response 200 (JsonOk over_range_body)) initial) = Some (normalized over_range_body)
   \<and> (\<exists>n::int. 0 \<le> n \<and> n \<le> 100 \<and>
        confidence (normalized over_range_body) = Finite (of_int n))
   \<and> state (complete sample_runtime sample_request noon
        (Response 200 (JsonOk JNull)) initial) = Error
   \<and> result (complete sample_runtime sample_request noon
        (Response 200 (JsonOk JNull)) initial) = None
   \<and> state (complete sample_runtime sample_request noon
        (Response 200 unparsable) initial) = Error
   \<and> result (complete sample_runtime sample_request noon
        (Response 200 unparsable) initial) = None
   \<and> get_prop over_range_body (lit ''confidence'') = Some (JNum (Finite (1236 / 10)))
   \<and> confidence (normalized over_range_body) =
        Finite (of_int (max 0 (min 100 \<lfloor>(1236 / 10 :: rat) + 1 / 2\<rfloor>)))
   \<and> get_prop overflow_body (lit ''confidence'') = Some (JNum PosInfinity)
   \<and> confidence (normalized overflow_body) = Finite 100
   \<and> get_prop underflow_body (lit ''confidence'') = Some (JNum NegInfinity)
   \<and> confidence (normalized underflow_body) = Finite 0
   \<and> (\<forall>c. get_prop text_confidence_body (lit ''confidence'') \<noteq> Some (JNum c))
   \<and> confidence (normalized text_confidence_body) = Finite 55"
proof -
  note inst = stored_confidence_in_range [where st = 200 and rt = sample_runtime
      and rq = sample_request and now = noon and a = initial
      and t = "ErrorObject (lit ''Unexpected token'')"]
  have a: "res_ok 200 \<and> over_range_body \<noteq> JNull"
    by (simp add: res_ok_def over_range_body_def)
  have b: "get_prop over_range_body (lit ''confidence'') = Some (JNum (Finite (1236 / 10)))"
    by (rule get_confidence)
  have c: "\<forall>c. get_prop text_confidence_body (lit ''confidence'') \<noteq> Some (JNum c)"
    by (simp add: get_confidence)
  have 1: "state (complete sample_runtime sample_request noon
        (Response 200 (JsonOk over_range_body)) initial) = Result
     \<and> result (complete sample_runtime sample_request noon
        (Response 200 (JsonOk over_range_body)) initial) = Some (normalized over_range_body)
     \<and> confidence (normalized over_range_body) =
        Finite (of_int (max 0 (min 100 \<lfloor>(1236 / 10 :: rat) + 1 / 2\<rfloor>)))
     \<and> state (complete sample_runtime sample_request noon
        (Response 200 (JsonOk JNull)) initial) = Error
     \<and> result (complete sample_runtime sample_request noon
        (Response 200 (JsonOk JNull)) initial) = None
     \<and> state (complete sample_runtime sample_request noon
        (Response 200 unparsable) initial) = Error
     \<and> result (complete sample_runtime sample_request noon
        (Response 200 unparsable) initial) = None"
    using a b
      inst [where dataRaw = over_range_body and r = "1236 / 10" and b = "JsonOk over_range_body"]
    unfolding unparsable_def by simp
  have 5: "\<exists>n::int. 0 \<le> n \<and> n \<le> 100 \<and>
        confidence (normalized over_range_body) = Finite (of_int n)"
    using a 1
      inst [where dataRaw = over_range_body and r = "1236 / 10" and b = "JsonOk over_range_body"]
    by blast
  have 2: "confidence (normalized overflow_body) = Finite 100"
    using get_overflow(1)
      inst [where dataRaw = overflow_body and r = 0 and b = "JsonOk overflow_body"]
    by simp
  have 3: "confidence (normalized underflow_body) = Finite 0"
    using get_overflow(2)
      inst [where dataRaw = underflow_body and r = 0 and b = "JsonOk underflow_body"]
    by simp
  have 4: "confidence (normalized text_confidence_body) = Finite 55"
    using c
      inst [where dataRaw = text_confidence_body and r = 0 and b = "JsonOk text_confidence_body"]
    by simp
  from a b c get_overflow 1 5 2 3 4 show ?thesis by simp
qed

section \<open>Scenario C\<close>

text \<open>
  Claim C9, as the code has it. A response 200 whose body carries type \<open>human\<close>,
  confidence -10, an empty array of reasons and no model is normalized to the verdict
  human, the confidence 0, the empty sequence of reasons and the model \<open>Heuristic\<close>;
  the session shows this result. The rule behind it: reasons that are an array, empty or
  not, are kept as they are, and the one-element placeholder stands for reasons that are
  absent or no array.
\<close>

theorem scenario_C_normalized:
  "normalized scenario_C_body =
     \<lparr>rtype = human, confidence = Finite 0, reasons = [], model = JStr (lit ''Heuristic'')\<rparr>
   \<and> state (session_after sample_runtime sample_code [(noon, scenario_C)]) = Result
   \<and> result (session_after sample_runtime sample_code [(noon, scenario_C)]) =
       Some \<lparr>rtype = human, confidence = Finite 0, reasons = [],
             model = JStr (lit ''Heuristic'')\<rparr>
   \<and> (get_prop dataRaw (lit ''reasons'') = Some (JArr rs) \<longrightarrow>
        reasons (normalized dataRaw) = rs)
   \<and> ((\<forall>rs. get_prop dataRaw (lit ''reasons'') \<noteq> Some (JArr rs)) \<longrightarrow>
        reasons (normalized dataRaw) = [JStr (lit ''No reasons provided by backend.'')])"
proof (intro conjI impI)
  show "normalized scenario_C_body =
     \<lparr>rtype = human, confidence = Finite 0, reasons = [], model = JStr (lit ''Heuristic'')\<rparr>"
    by (rule normalized_scenario_C)
  show "state (session_after sample_runtime sample_code [(noon, scenario_C)]) = Result"
    by (simp add: session_after_one [OF sample_code_valid] scenario_C_def
        complete_ok [OF scenario_C_ok])
  show "result (session_after sample_runtime sample_code [(noon, scenario_C)]) =
       Some \<lparr>rtype = human, confidence = Finite 0, reasons = [],
             model = JStr (lit ''Heuristic'')\<rparr>"
    by (simp add: session_after_one [OF sample_code_valid] scenario_C_def
        complete_ok [OF scenario_C_ok] normalized_scenario_C)
  show "reasons (normalized dataRaw) = rs"
    if "get_prop dataRaw (lit ''reasons'') = Some (JArr rs)"
    using that by (simp add: normalized_def)
  show "reasons (normalized dataRaw) = [JStr (lit ''No reasons provided by backend.'')]"
    if "\<forall>rs. get_prop dataRaw (lit ''reasons'') \<noteq> Some (JArr rs)"
    using that by (auto simp: normalized_def split: option.splits json.splits)
qed

text \<open>
  The theorem at the body of scenario C, at the body of scenario A with its two reasons,
  at a body whose reasons are a text, and at one without reasons.
\<close>

theorem scenario_C_normalized_witness:
  "get_prop scenario_C_body (lit ''reasons'') = Some (JArr [])
   \<and> reasons (normalized scenario_C_body) = []
   \<and> get_prop two_reasons_body (lit ''reasons'') =
       Some (JArr [JStr (lit ''Few comments''), JStr (lit ''Highly regular formatting'')])
   \<and> reasons (normalized two_reasons_body) =
       [JStr (lit ''Few comments''), JStr (lit ''Highly regular formatting'')]
   \<and> (\<forall>rs. get_prop text_reasons_body (lit ''reasons'') \<noteq> Some (JArr rs))
   \<and> reasons (normalized text_reasons_body) = [JStr (lit ''No reasons provided by backend.'')]
   \<and> (\<forall>rs. get_prop over_range_body (lit ''reasons'') \<noteq> Some (JArr rs))
   \<and> reasons (normalized over_range_body) = [JStr (lit ''No reasons provided by backend.'')]"
proof -
  have 1: "reasons (normalized scenario_C_body) = []"
    using get_scenario_C(3)
      scenario_C_normalized [where dataRaw = scenario_C_body and rs = "[]"]
    by simp
  have 2: "reasons (normalized two_reasons_body) =
       [JStr (lit ''Few comments''), JStr (lit ''Highly regular formatting'')]"
    using get_reasons(3)
      scenario_C_normalized [where dataRaw = two_reasons_body
        and rs = "[JStr (lit ''Few comments''), JStr (lit ''Highly regular formatting'')]"]
    by simp
  have 3: "reasons (normalized text_reasons_body) = [JStr (lit ''No reasons provided by backend.'')]"
    using get_reasons(1)
      scenario_C_normalized [where dataRaw = text_reasons_body and rs = "[]"]
    by simp
  have 4: "reasons (normalized over_range_body) = [JStr (lit ''No reasons provided by backend.'')]"
    using get_reasons(2)
      scenario_C_normalized [where dataRaw = over_range_body and rs = "[]"]
    by simp
  from get_scenario_C(3) get_reasons 1 2 3 4 show ?thesis by simp
qed

text \<open>
  Claim C9 as it is worded has the empty array replaced by the placeholder: the reasons
  of the result shown are the empty sequence, not the one-element placeholder.
\<close>

theorem scenario_C_reasons_counterexample:
  "map_option reasons (result (session_after sample_runtime sample_code [(noon, scenario_C)]))
     = Some []
   \<and> map_option reasons (result (session_after sample_runtime sample_code [(noon, scenario_C)]))
     \<noteq> Some no_reasons"
  by (simp add: session_after_one [OF sample_code_valid] scenario_C_def
      complete_ok [OF scenario_C_ok] normalized_scenario_C no_reasons_def)

section \<open>Failures\<close>

text \<open>
  Claim C3, as the code has it. Every response with a status outside 200 to 299 puts
  the component in state \<open>Error\<close>. Its message is the \<open>error\<close> field of the body
  when that field is a non-empty text. Another truthy value is converted to a text by
  the \<open>Error\<close> constructor: \<open>true\<close> gives \<open>true\<close>, a number the text the engine
  prints, an object \<open>[object Object]\<close>, an array the texts of its elements joined by
  commas; when the conversion throws, as it does for an object with a member named
  \<open>toString\<close> and for an array holding one, the message is the one of the engine's
  \<open>TypeError\<close>. When the field is absent or falsy (the empty text too), or the body is
  \<open>null\<close> or does not parse, the message is derived from the status. When the
  transport fails the state is \<open>Error\<close> as well, and the message is the one of the
  value \<open>fetch\<close> rejected with when that is an \<open>Error\<close> object, and the generic text
  about reaching the server only when it is not.
\<close>

theorem failure_message:
  "(\<not> res_ok st \<longrightarrow> state (complete rt rq now (Response st b) a) = Error)
   \<and> (\<not> res_ok st \<and> get_prop errJson (lit ''error'') = Some (JStr m) \<and> m \<noteq> [] \<longrightarrow>
        errorMessage (complete rt rq now (Response st (JsonOk errJson)) a) = Some m)
   \<and> (\<not> res_ok st \<and> get_prop errJson (lit ''error'') = Some v \<and> truthy v \<longrightarrow>
        errorMessage (complete rt rq now (Response st (JsonOk errJson)) a) =
          Some (case ToString (number_text rt) v of
                  Some m \<Rightarrow> m
                | None \<Rightarrow> to_primitive_message rt))
   \<and> (\<not> res_ok st \<and> get_prop errJson (lit ''error'') = Some (JBool True) \<longrightarrow>
        errorMessage (complete rt rq now (Response st (JsonOk errJson)) a) = Some (lit ''true''))
   \<and> (\<not> res_ok st \<and> get_prop errJson (lit ''error'') = Some (JNum n) \<and> n \<noteq> Finite 0 \<longrightarrow>
        errorMessage (complete rt rq now (Response st (JsonOk errJson)) a) =
          Some (number_text rt n))
   \<and> (\<not> res_ok st \<and> get_prop errJson (lit ''error'') = Some (JObj kvs) \<and>
        lit ''toString'' \<notin> fst ` set kvs \<longrightarrow>
        errorMessage (complete rt rq now (Response st (JsonOk errJson)) a) =
          Some (lit ''[object Object]''))
   \<and> (\<not> res_ok st \<and> get_prop errJson (lit ''error'') = Some (JObj kvs) \<and>
        lit ''toString'' \<in> fst ` set kvs \<longrightarrow>
        errorMessage (complete rt rq now (Response st (JsonOk errJson)) a) =
          Some (to_primitive_message rt))
   \<and> (\<not> res_ok st \<and> get_prop errJson (lit ''error'') = Some (JArr []) \<longrightarrow>
        errorMessage (complete rt rq now (Response st (JsonOk errJson)) a) = Some [])
   \<and> (\<not> res_ok st \<and> get_prop errJson (lit ''error'') =
          Some (JArr [JStr p, JNull, JArr [JStr q, JBool False], JObj []]) \<longrightarrow>
        errorMessage (complete rt rq now (Response st (JsonOk errJson)) a) =
          Some (p @ lit '',,'' @ q @ lit '',false,[object Object]''))
   \<and> (\<not> res_ok st \<and> get_prop errJson (lit ''error'') =
          Some (JArr [JStr p, JObj [(lit ''toString'', x)]]) \<longrightarrow>
        errorMessage (complete rt rq now (Response st (JsonOk errJson)) a) =
          Some (to_primitive_message rt))
   \<and> (\<not> res_ok st \<and> (get_prop errJson (lit ''error'') = None \<or>
          (\<exists>v. get_prop errJson (lit ''error'') = Some v \<and> \<not> truthy v)) \<longrightarrow>
        errorMessage (complete rt rq now (Response st (JsonOk errJson)) a) =
          Some (lit ''Server error (status '' @ decimal st @ lit '')''))
   \<and> (\<not> res_ok st \<longrightarrow>
        errorMessage (complete rt rq now (Response st (JsonRejects t)) a) =
          Some (lit ''Server error (status '' @ decimal st @ lit '')''))
   \<and> state (complete rt rq now (FetchRejects t) a) = Error
   \<and> errorMessage (complete rt rq now (FetchRejects (ErrorObject m)) a) = Some m
   \<and> errorMessage (complete rt rq now (FetchRejects NonError) a) =
        Some (lit ''Unable to reach the server. Please try again.'')"
proof (intro conjI impI)
  show "state (complete rt rq now (Response st b) a) = Error" if "\<not> res_ok st"
    using that by (simp add: complete_not_ok)
  show "errorMessage (complete rt rq now (Response st (JsonOk errJson)) a) = Some m"
    if "\<not> res_ok st \<and> get_prop errJson (lit ''error'') = Some (JStr m) \<and> m \<noteq> []"
    using that by (simp add: error_field_message [where v = "JStr m"])
  show "errorMessage (complete rt rq now (Response st (JsonOk errJson)) a) =
          Some (case ToString (number_text rt) v of
                  Some m \<Rightarrow> m
                | None \<Rightarrow> to_primitive_message rt)"
    if "\<not> res_ok st \<and> get_prop errJson (lit ''error'') = Some v \<and> truthy v"
    using that by (simp add: error_field_message)
  show "errorMessage (complete rt rq now (Response st (JsonOk errJson)) a) = Some (lit ''true'')"
    if "\<not> res_ok st \<and> get_prop errJson (lit ''error'') = Some (JBool True)"
    using that by (simp add: error_field_message [where v = "JBool True"])
  show "errorMessage (complete rt rq now (Response st (JsonOk errJson)) a) =
          Some (number_text rt n)"
    if "\<not> res_ok st \<and> get_prop errJson (lit ''error'') = Some (JNum n) \<and> n \<noteq> Finite 0"
    using that by (simp add: error_field_message [where v = "JNum n"])
  show "errorMessage (complete rt rq now (Response st (JsonOk errJson)) a) =
          Some (lit ''[object Object]'')"
    if "\<not> res_ok st \<and> get_prop errJson (lit ''error'') = Some (JObj kvs) \<and>
        lit ''toString'' \<notin> fst ` set kvs"
    using that by (simp add: error_field_message [where v = "JObj kvs"])
  show "errorMessage (complete rt rq now (Response st (JsonOk errJson)) a) =
          Some (to_primitive_message rt)"
    if "\<not> res_ok st \<and> get_prop errJson (lit ''error'') = Some (JObj kvs) \<and>
        lit ''toString'' \<in> fst ` set kvs"
    using that by (simp add: error_field_message [where v = "JObj kvs"])
  show "errorMessage (complete rt rq now (Response st (JsonOk errJson)) a) = Some []"
    if "\<not> res_ok st \<and> get_prop errJson (lit ''error'') = Some (JArr [])"
    using that by (simp add: error_field_message [where v = "JArr []"])
  show "errorMessage (complete rt rq now (Response st (JsonOk errJson)) a) =
          Some (p @ lit '',,'' @ q @ lit '',false,[object Object]'')"
    if "\<not> res_ok st \<and> get_prop errJson (lit ''error'') =
          Some (JArr [JStr p, JNull, JArr [JStr q, JBool False], JObj []])"
    using that
    by (simp add: error_field_message
        [where v = "JArr [JStr p, JNull, JArr [JStr q, JBool False], JObj []]"] lit_def)
  show "errorMessage (complete rt rq now (Response st (JsonOk errJson)) a) =
          Some (to_primitive_message rt)"
    if "\<not> res_ok st \<and> get_prop errJson (lit ''error'') =
          Some (JArr [JStr p, JObj [(lit ''toString'', x)]])"
    using that
    by (simp add: error_field_message [where v = "JArr [JStr p, JObj [(lit ''toString'', x)]]"])
  show "errorMessage (complete rt rq now (Response st (JsonOk errJson)) a) =
          Some (lit ''Server error (status '' @ decimal st @ lit '')'')"
    if "\<not> res_ok st \<and> (get_prop errJson (lit ''error'') = None \<or>
          (\<exists>v. get_prop errJson (lit ''error'') = Some v \<and> \<not> truthy v))"
  proof -
    from that have "backendMessage (JsonOk errJson) = JStr []"
      by (intro backendMessage_falsy) blast
    with that show ?thesis
      by (simp add: complete_not_ok server_error_def catch_message_def status_message_def)
  qed
  show "errorMessage (complete rt rq now (Response st (JsonRejects t)) a) =
          Some (lit ''Server error (status '' @ decimal st @ lit '')'')"
    if "\<not> res_ok st"
    using that
    by (simp add: complete_not_ok server_error_def catch_message_def status_message_def
        backendMessage_def)
  show "state (complete rt rq now (FetchRejects t) a) = Error"
    by (simp add: complete_rejected)
  show "errorMessage (complete rt rq now (FetchRejects (ErrorObject m)) a) = Some m"
    by (simp add: complete_rejected catch_message_def)
  show "errorMessage (complete rt rq now (FetchRejects NonError) a) =
        Some (lit ''Unable to reach the server. Please try again.'')"
    by (simp add: complete_rejected catch_message_def)
qed

text \<open>
  The theorem at scenario B (status 500, error field \<open>model unavailable\<close>), at
  responses 500 whose error field is \<open>true\<close>, the number 429, an object, an object with
  a member named \<open>toString\<close>, and arrays, and at responses 503 whose body is an object
  without error field, or no JSON text.
\<close>

theorem failure_message_witness:
  "\<not> res_ok 500
   \<and> get_prop (JObj [(lit ''error'', JStr (lit ''model unavailable''))]) (lit ''error'') =
       Some (JStr (lit ''model unavailable''))
   \<and> lit ''model unavailable'' \<noteq> []
   \<and> state (complete sample_runtime sample_request noon scenario_B initial) = Error
   \<and> errorMessage (complete sample_runtime sample_request noon scenario_B initial) =
       Some (lit ''model unavailable'')
   \<and> get_prop flag_error_body (lit ''error'') = Some (JBool True) \<and> truthy (JBool True)
   \<and> errorMessage (complete sample_runtime sample_request noon
        (Response 500 (JsonOk flag_error_body)) initial) = Some (lit ''true'')
   \<and> get_prop count_error_body (lit ''error'') = Some (JNum (Finite 429))
   \<and> Finite 429 \<noteq> Finite 0
   \<and> errorMessage (complete sample_runtime sample_request noon
        (Response 500 (JsonOk count_error_body)) initial) = Some (lit ''429'')
   \<and> get_prop object_error_body (lit ''error'') = Some (JObj [(lit ''code'', JNum (Finite 7))])
   \<and> lit ''toString'' \<notin> fst ` set [(lit ''code'', JNum (Finite 7))]
   \<and> errorMessage (complete sample_runtime sample_request noon
        (Response 500 (JsonOk object_error_body)) initial) = Some (lit ''[object Object]'')
   \<and> get_prop keyed_error_body (lit ''error'') =
       Some (JObj [(lit ''toString'', JStr (lit ''x'')), (lit ''code'', JNum (Finite 7))])
   \<and> lit ''toString'' \<in> fst ` set [(lit ''toString'', JStr (lit ''x'')), (lit ''code'', JNum (Finite 7))]
   \<and> errorMessage (complete sample_runtime sample_request noon
        (Response 500 (JsonOk keyed_error_body)) initial) =
       Some (lit ''Cannot convert object to primitive value'')
   \<and> get_prop empty_list_error_body (lit ''error'') = Some (JArr [])
   \<and> errorMessage (complete sample_runtime sample_request noon
        (Response 500 (JsonOk empty_list_error_body)) initial) = Some []
   \<and> get_prop list_error_body (lit ''error'') =
       Some (JArr [JStr (lit ''quota''), JNull, JArr [JStr (lit ''hour''), JBool False], JObj []])
   \<and> errorMessage (complete sample_runtime sample_request noon
        (Response 500 (JsonOk list_error_body)) initial) =
       Some (lit ''quota,,hour,false,[object Object]'')
   \<and> get_prop keyed_list_error_body (lit ''error'') =
       Some (JArr [JStr (lit ''quota''), JObj [(lit ''toString'', JNull)]])
   \<and> errorMessage (complete sample_runtime sample_request noon
        (Response 500 (JsonOk keyed_list_error_body)) initial) =
       Some (lit ''Cannot convert object to primitive value'')
   \<and> \<not> res_ok 503 \<and> get_prop (JObj []) (lit ''error'') = None
   \<and> errorMessage (complete sample_runtime sample_request noon unavailable_body initial) =
       Some (lit ''Server error (status 503)'')
   \<and> errorMessage (complete sample_runtime sample_request noon (Response 503 unparsable) initial) =
       Some (lit ''Server error (status 503)'')"
proof -
  note inst = failure_message [where rt = sample_runtime and now = noon and a = initial
      and rq = sample_request and t = "ErrorObject (lit ''Unexpected token'')"
      and p = "lit ''quota''" and q = "lit ''hour''" and x = JNull and n = "Finite 429"]
  have b: "lit ''model unavailable'' \<noteq> []"
    by (simp add: lit_def)
  have c: "lit ''toString'' \<notin> fst ` set [(lit ''code'', JNum (Finite 7))]"
    "lit ''toString'' \<in> fst ` set [(lit ''toString'', JStr (lit ''x'')), (lit ''code'', JNum (Finite 7))]"
    by (simp_all add: lit_def)
  have d: "lit ''Server error (status '' @ decimal 503 @ lit '')'' = lit ''Server error (status 503)''"
    using status_503 by (simp add: status_message_def)
  have 1: "state (complete sample_runtime sample_request noon scenario_B initial) = Error
     \<and> errorMessage (complete sample_runtime sample_request noon scenario_B initial) =
       Some (lit ''model unavailable'')"
    using not_ok(1) b get_error(1)
      inst [where st = 500
        and b = "JsonOk (JObj [(lit ''error'', JStr (lit ''model unavailable''))])"
        and errJson = "JObj [(lit ''error'', JStr (lit ''model unavailable''))]"
        and m = "lit ''model unavailable''" and v = "JStr (lit ''model unavailable'')"
        and kvs = "[]"]
    unfolding scenario_B_def by simp
  have 2: "errorMessage (complete sample_runtime sample_request noon
        (Response 500 (JsonOk flag_error_body)) initial) = Some (lit ''true'')"
    using not_ok(1) get_error(2)
      inst [where st = 500 and errJson = flag_error_body and v = "JBool True"
        and b = "JsonOk flag_error_body" and m = "[]" and kvs = "[]"]
    by simp
  have 3: "errorMessage (complete sample_runtime sample_request noon
        (Response 500 (JsonOk count_error_body)) initial) = Some (lit ''429'')"
    using not_ok(1) get_error(4)
      inst [where st = 500 and errJson = count_error_body and v = "JNum (Finite 429)"
        and b = "JsonOk count_error_body" and m = "[]" and kvs = "[]"]
    by (simp add: sample_runtime_def integer_text_429)
  have 4: "errorMessage (complete sample_runtime sample_request noon
        (Response 500 (JsonOk object_error_body)) initial) = Some (lit ''[object Object]'')"
    using not_ok(1) get_error(5) c(1)
      inst [where st = 500 and errJson = object_error_body
        and v = "JObj [(lit ''code'', JNum (Finite 7))]"
        and b = "JsonOk object_error_body" and m = "[]"
        and kvs = "[(lit ''code'', JNum (Finite 7))]"]
    by simp
  have 5: "errorMessage (complete sample_runtime sample_request noon
        (Response 500 (JsonOk keyed_error_body)) initial) =
       Some (lit ''Cannot convert object to primitive value'')"
    using not_ok(1) get_error(6) c(2)
      inst [where st = 500 and errJson = keyed_error_body
        and v = "JObj [(lit ''toString'', JStr (lit ''x'')), (lit ''code'', JNum (Finite 7))]"
        and b = "JsonOk keyed_error_body" and m = "[]"
        and kvs = "[(lit ''toString'', JStr (lit ''x'')), (lit ''code'', JNum (Finite 7))]"]
    by (simp add: sample_runtime_def)
  have 6: "errorMessage (complete sample_runtime sample_request noon
        (Response 500 (JsonOk empty_list_error_body)) initial) = Some []"
    using not_ok(1) get_error(7)
      inst [where st = 500 and errJson = empty_list_error_body and v = "JArr []"
        and b = "JsonOk empty_list_error_body" and m = "[]" and kvs = "[]"]
    by simp
  have 7: "errorMessage (complete sample_runtime sample_request noon
        (Response 500 (JsonOk list_error_body)) initial) =
       Some (lit ''quota,,hour,false,[object Object]'')"
    using not_ok(1) get_error(8)
      inst [where st = 500 and errJson = list_error_body
        and v = "JArr [JStr (lit ''quota''), JNull, JArr [JStr (lit ''hour''), JBool False], JObj []]"
        and b = "JsonOk list_error_body" and m = "[]" and kvs = "[]"]
    by (simp add: lit_def)
  have 8: "errorMessage (complete sample_runtime sample_request noon
        (Response 500 (JsonOk keyed_list_error_body)) initial) =
       Some (lit ''Cannot convert object to primitive value'')"
    using not_ok(1) get_error(9)
      inst [where st = 500 and errJson = keyed_list_error_body
        and v = "JArr [JStr (lit ''quota''), JObj [(lit ''toString'', JNull)]]"
        and b = "JsonOk keyed_list_error_body" and m = "[]" and kvs = "[]"]
    by (simp add: sample_runtime_def)
  have 9: "errorMessage (complete sample_runtime sample_request noon unavailable_body initial) =
       Some (lit ''Server error (status 503)'')
     \<and> errorMessage (complete sample_runtime sample_request noon (Response 503 unparsable) initial) =
       Some (lit ''Server error (status 503)'')"
    using not_ok(2) get_error(3)
      inst [where st = 503 and errJson = "JObj []" and v = JNull and m = "[]"
        and b = "JsonOk (JObj [])" and kvs = "[]"]
    unfolding unavailable_body_def unparsable_def d by simp
  from not_ok b c get_error 1 2 3 4 5 6 7 8 9 show ?thesis by simp
qed

text \<open>
  Claim C3 as it is worded fails at two responses. When \<open>fetch\<close> is rejected, as it
  is on a network failure, with a \<open>TypeError\<close> whose message is \<open>Failed to fetch\<close>,
  that message is shown and not the generic text. When a response 500 carries an error
  field that is the empty text, the message is the one derived from the status and not
  the field.
\<close>

theorem failure_message_counterexample:
  "errorMessage (session_after sample_runtime sample_code [(noon, failed_to_fetch)]) =
     Some (lit ''Failed to fetch'')
   \<and> errorMessage (session_after sample_runtime sample_code [(noon, failed_to_fetch)]) \<noteq>
     Some (lit ''Unable to reach the server. Please try again.'')
   \<and> errorMessage (session_after sample_runtime sample_code [(noon, empty_error_field)]) =
     Some (lit ''Server error (status 500)'')
   \<and> errorMessage (session_after sample_runtime sample_code [(noon, empty_error_field)]) \<noteq>
     Some []"
proof -
  have a: "\<not> res_ok 500" by (simp add: res_ok_def)
  have b: "backendMessage (JsonOk (JObj [(lit ''error'', JStr [])])) = JStr []"
    by (simp add: backendMessage_def)
  have c: "lit ''Failed to fetch'' \<noteq> lit ''Unable to reach the server. Please try again.''"
    by (simp add: lit_def)
  have d: "lit ''Server error (status 500)'' \<noteq> []"
    by (simp add: lit_def)
  show ?thesis
    by (simp add: session_after_one [OF sample_code_valid] failed_to_fetch_def
        empty_error_field_def complete_rejected complete_not_ok [OF a] server_error_def b
        catch_message_def status_500 c d)
qed

section \<open>The minimum length of the code\<close>

text \<open>
  Claim C1 at a run the user interface allows: an attempt with a snippet of 30
  characters fails, the user shortens the buffer to \<open>abc\<close> and clicks Retry. Before
  the click the state is \<open>Error\<close> and no request is in flight, and the Analyze button,
  which checks the minimum length, delivers nothing. The Retry button checks only that
  the trimmed buffer is not empty, and so does \<open>handleAnalyze\<close>: the state becomes
  \<open>Loading\<close> and a request carrying the three characters is sent.
\<close>

theorem retry_submits_short_code:
  "length (trim short_code) < MIN_CODE_LENGTH
   \<and> state (ui (run sample_runtime start (shortened))) = Error
   \<and> inflight (run sample_runtime start (shortened)) = []
   \<and> step sample_runtime (run sample_runtime start (shortened)) ClickAnalyze =
       run sample_runtime start (shortened)
   \<and> state (ui (run sample_runtime start retry_short)) = Loading
   \<and> inflight (run sample_runtime start retry_short) =
       [\<lparr>req_code = short_code, req_language = lit ''auto''\<rparr>]"
  by (simp add: retry_short_def shortened_def run_append after_failed_attempt run_Cons run_Nil
      trim_short_code MIN_CODE_LENGTH_def analyze_disabled_def isLoading_def isCodeValid_def
      retry_rendered_def retry_disabled_def submit_def handleAnalyze_def)

section \<open>Requests in flight\<close>

text \<open>
  Claim C6, as the code has it. In state \<open>Loading\<close> a click on Analyze or on Retry is
  not delivered (the first button is disabled, the second is not rendered): the state
  and the requests in flight stay as they are, so no second request is sent, none is
  queued and the one in flight is not superseded. In every run without a reset at most
  one request is in flight. A reset is what the bound depends on: it leaves the state
  \<open>Loading\<close> without stopping the request.
\<close>

theorem submit_rejected_while_loading:
  "(state (ui s) = Loading \<longrightarrow> step rt s ClickAnalyze = s \<and> step rt s ClickRetry = s)
   \<and> (ClickReset \<notin> set evs \<longrightarrow> length (inflight (run rt start evs)) \<le> 1)
   \<and> inflight (step rt s ClickReset) = inflight s"
proof (intro conjI impI)
  assume "state (ui s) = Loading"
  then show "step rt s ClickAnalyze = s" "step rt s ClickRetry = s"
    by (simp_all add: analyze_disabled_def isLoading_def retry_rendered_def)
next
  assume "ClickReset \<notin> set evs"
  moreover have "one_at_a_time start"
    by (simp add: one_at_a_time_def start_def initial_def)
  ultimately have "one_at_a_time (run rt start evs)"
    by (intro run_one_at_a_time)
  then show "length (inflight (run rt start evs)) \<le> 1"
    by (simp add: one_at_a_time_def split: if_splits)
next
  show "inflight (step rt s ClickReset) = inflight s" by simp
qed

text \<open>The theorem at the session that has just submitted the sample snippet.\<close>

theorem submit_rejected_while_loading_witness:
  "state (ui (run sample_runtime start [Edit sample_code, ClickAnalyze])) = Loading
   \<and> step sample_runtime (run sample_runtime start [Edit sample_code, ClickAnalyze]) ClickAnalyze =
       run sample_runtime start [Edit sample_code, ClickAnalyze]
   \<and> step sample_runtime (run sample_runtime start [Edit sample_code, ClickAnalyze]) ClickRetry =
       run sample_runtime start [Edit sample_code, ClickAnalyze]
   \<and> ClickReset \<notin> set [Edit sample_code, ClickAnalyze, ClickAnalyze]
   \<and> length (inflight (run sample_runtime start [Edit sample_code, ClickAnalyze, ClickAnalyze])) \<le> 1"
proof -
  have a: "state (ui (run sample_runtime start [Edit sample_code, ClickAnalyze])) = Loading"
    by (simp add: after_loading)
  have b: "ClickReset \<notin> set [Edit sample_code, ClickAnalyze, ClickAnalyze]"
    by simp
  from a b
    submit_rejected_while_loading [where rt = sample_runtime
      and s = "run sample_runtime start [Edit sample_code, ClickAnalyze]"
      and evs = "[Edit sample_code, ClickAnalyze, ClickAnalyze]"]
  show ?thesis by blast
qed

text \<open>
  Claim C6 as it is worded bounds the outstanding requests by one at any time. After a
  submission, a reset while the request is in flight, and a new submission, two requests
  are in flight.
\<close>

theorem two_requests_counterexample:
  "inflight (run sample_runtime start resubmit_after_reset) =
     [\<lparr>req_code = sample_code, req_language = lit ''auto''\<rparr>,
      \<lparr>req_code = other_code, req_language = lit ''auto''\<rparr>]
   \<and> \<not> length (inflight (run sample_runtime start resubmit_after_reset)) \<le> 1"
  by (simp add: after_resubmit sample_request_def)

section \<open>Responses of abandoned attempts\<close>

text \<open>
  Claim C7, as the code has it. Nothing relates a response to the attempt that is
  active. A reset leaves the requests in flight as they are, and when a request settles
  its continuation runs on the state it finds, whatever that is: the state becomes
  \<open>Result\<close> with the normalized result, or \<open>Error\<close> with the message and no
  result, and one item is put at the head of the history.
\<close>

theorem completion_applied_in_any_state:
  "inflight (step rt s ClickReset) = inflight s
   \<and> (i < length (inflight s) \<longrightarrow>
        ui (step rt s (Settle i now out)) = complete rt (inflight s ! i) now out (ui s))
   \<and> (\<forall>n. try_block rt out = Inr n \<longrightarrow>
        state (complete rt rq now out a) = Result \<and>
        result (complete rt rq now out a) = Some n)
   \<and> (\<forall>err. try_block rt out = Inl err \<longrightarrow>
        state (complete rt rq now out a) = Error \<and>
        result (complete rt rq now out a) = None \<and>
        errorMessage (complete rt rq now out a) = Some (catch_message err))
   \<and> history (complete rt rq now out a) =
        take 10 (new_item (length (history a) + 1) now (req_code rq) (history_arg rt rq out)
                  # history a)"
proof (intro conjI allI impI)
  show "inflight (step rt s ClickReset) = inflight s" by simp
  show "ui (step rt s (Settle i now out)) = complete rt (inflight s ! i) now out (ui s)"
    if "i < length (inflight s)"
    using that by simp
  show "state (complete rt rq now out a) = Result" "result (complete rt rq now out a) = Some n"
    if "try_block rt out = Inr n" for n
    using that by (simp_all add: complete_def)
  show "state (complete rt rq now out a) = Error" "result (complete rt rq now out a) = None"
    "errorMessage (complete rt rq now out a) = Some (catch_message err)"
    if "try_block rt out = Inl err" for err
    using that by (simp_all add: complete_def)
  show "history (complete rt rq now out a) =
        take 10 (new_item (length (history a) + 1) now (req_code rq) (history_arg rt rq out)
                  # history a)"
    by (simp only: complete_history addToHistory_def)
qed

text \<open>
  The theorem at the session that was reset while the request for the sample snippet was
  in flight, and at the response of scenario C.
\<close>

theorem completion_applied_in_any_state_witness:
  "0 < length (inflight (run sample_runtime start reset_in_flight))
   \<and> ui (step sample_runtime (run sample_runtime start reset_in_flight) (Settle 0 noon scenario_C)) =
       complete sample_runtime (inflight (run sample_runtime start reset_in_flight) ! 0) noon
         scenario_C (ui (run sample_runtime start reset_in_flight))
   \<and> try_block sample_runtime scenario_C = Inr (normalized scenario_C_body)
   \<and> state (complete sample_runtime sample_request noon scenario_C initial) = Result
   \<and> result (complete sample_runtime sample_request noon scenario_C initial) =
       Some (normalized scenario_C_body)
   \<and> try_block sample_runtime failed_to_fetch = Inl (ErrorObject (lit ''Failed to fetch''))
   \<and> state (complete sample_runtime sample_request noon failed_to_fetch initial) = Error"
proof -
  have a: "0 < length (inflight (run sample_runtime start reset_in_flight))"
    by (simp add: after_reset_in_flight)
  have b: "try_block sample_runtime scenario_C = Inr (normalized scenario_C_body)"
    using scenario_C_ok by (simp add: try_block_def scenario_C_def scenario_C_body_def)
  have c: "try_block sample_runtime failed_to_fetch = Inl (ErrorObject (lit ''Failed to fetch''))"
    by (simp add: try_block_def failed_to_fetch_def)
  from a b c
    completion_applied_in_any_state [where rt = sample_runtime
      and s = "run sample_runtime start reset_in_flight" and i = 0 and now = noon
      and out = scenario_C and rq = sample_request and a = initial]
    completion_applied_in_any_state [where rt = sample_runtime
      and out = failed_to_fetch and rq = sample_request and a = initial and now = noon]
  show ?thesis by blast
qed

text \<open>
  Claim C7 as it is worded has the response of an abandoned request dropped. After a
  reset while the request is in flight the state is \<open>Empty\<close>, with no result, no
  message and an empty history. When the request then succeeds, the state becomes
  \<open>Result\<close>, a result is shown and the history has an item; when it fails, the state
  becomes \<open>Error\<close>, a message is shown and the history has an item.
\<close>

theorem stale_response_counterexample:
  "state (ui (run sample_runtime start reset_in_flight)) = Empty
   \<and> result (ui (run sample_runtime start reset_in_flight)) = None
   \<and> errorMessage (ui (run sample_runtime start reset_in_flight)) = None
   \<and> history (ui (run sample_runtime start reset_in_flight)) = []
   \<and> state (ui (run sample_runtime start (reset_in_flight @ [Settle 0 noon scenario_C]))) = Result
   \<and> result (ui (run sample_runtime start (reset_in_flight @ [Settle 0 noon scenario_C]))) =
       Some \<lparr>rtype = human, confidence = Finite 0, reasons = [],
             model = JStr (lit ''Heuristic'')\<rparr>
   \<and> length (history (ui (run sample_runtime start (reset_in_flight @ [Settle 0 noon scenario_C])))) = 1
   \<and> state (ui (run sample_runtime start (reset_in_flight @ [Settle 0 noon failed_to_fetch]))) = Error
   \<and> errorMessage (ui (run sample_runtime start (reset_in_flight @ [Settle 0 noon failed_to_fetch]))) =
       Some (lit ''Failed to fetch'')
   \<and> length (history (ui (run sample_runtime start (reset_in_flight @ [Settle 0 noon failed_to_fetch])))) = 1"
  by (simp add: run_append after_reset_in_flight run_Cons run_Nil initial_def scenario_C_def
      complete_ok [OF scenario_C_ok] normalized_scenario_C failed_to_fetch_def complete_rejected
      catch_message_def length_addToHistory)

section \<open>Retry\<close>




end
